theory Spec2Isabelle
  imports Main "HOL-Library.Sublist"
begin

section \<open>JavaScript values\<close>

text \<open>
  A JavaScript string is modelled as a \<open>string\<close>: the bytes of its UTF-8 form, in which an
  ASCII character, the only kind the code under study inspects, is a single byte. A surrogate
  without its pair has no UTF-8 form; it is written with the three bytes that the same
  scheme gives its code unit (0xED, then 0xA0 to 0xBF, then a continuation byte). So a
  string holds a lone surrogate exactly when its bytes are not well-formed UTF-8
  (\<open>well_formed\<close> below).

  A thrown value is an object with the three properties the catch blocks of the mail
  service read: \<open>error.code\<close>, \<open>error.message\<close> and \<open>error.response.status\<close>; each
  may be absent.
\<close>

record js_error =
  code :: "int option"
  message :: "string option"
  response_status :: "int option"

definition Error :: "string \<Rightarrow> js_error" where
  "Error m = \<lparr>code = None, message = Some m, response_status = None\<rparr>"

text \<open>Reading a property of \<open>undefined\<close> throws a \<open>TypeError\<close>.\<close>

definition TypeError_includes :: js_error where
  "TypeError_includes =
     Error (''Cannot read properties of undefined (reading '' @ [CHR 0x27] @ ''includes''
            @ [CHR 0x27] @ '')'')"

text \<open>The \<open>URIError\<close> of \<open>encodeURIComponent\<close> and \<open>decodeURIComponent\<close>.\<close>

definition URIError :: js_error where
  "URIError = Error ''URI malformed''"

text \<open>\<open>s.includes(sub)\<close>: \<open>sub\<close> occurs in \<open>s\<close> as a contiguous run.\<close>

fun str_includes :: "string \<Rightarrow> string \<Rightarrow> bool" where
  "str_includes [] sub = (sub = [])"
| "str_includes (c # cs) sub = (prefix sub (c # cs) \<or> str_includes cs sub)"

text \<open>\<open>xs.join(sep)\<close>.\<close>

fun join :: "string \<Rightarrow> string list \<Rightarrow> string" where
  "join sep [] = []"
| "join sep [x] = x"
| "join sep (x # y # ys) = x @ sep @ join sep (y # ys)"

text \<open>Number to string conversion of an integer, as in \<open>"bulk_send_" + Date.now()\<close>.\<close>

function show_digits :: "int \<Rightarrow> string" where
  "show_digits n =
     (if n < 10 then [char_of (48 + n)]
      else show_digits (n div 10) @ [char_of (48 + n mod 10)])"
  by pat_completeness auto
termination
  by (relation "measure nat") auto

declare show_digits.simps [simp del]

definition show_int :: "int \<Rightarrow> string" where
  "show_int i = (if i < 0 then CHR ''-'' # show_digits (- i) else show_digits i)"

text \<open>\<open>s.substr(start, len)\<close> for non-negative arguments.\<close>

definition substr :: "string \<Rightarrow> nat \<Rightarrow> nat \<Rightarrow> string" where
  "substr s start len = take len (drop start s)"

definition CRLF :: string where
  "CRLF = [CHR 0x0D, CHR 0x0A]"

subsection \<open>Well-formed strings\<close>

text \<open>The length of the UTF-8 sequence that a first byte announces; 0 if it announces none.\<close>

definition utf8_seq_len :: "nat \<Rightarrow> nat" where
  "utf8_seq_len b =
     (if 0xC0 \<le> b \<and> b \<le> 0xDF then 2
      else if 0xE0 \<le> b \<and> b \<le> 0xEF then 3
      else if 0xF0 \<le> b \<and> b \<le> 0xF7 then 4
      else 0)"

definition utf8_cont :: "nat \<Rightarrow> bool" where
  "utf8_cont b = (0x80 \<le> b \<and> b \<le> 0xBF)"

text \<open>The well-formed sequences of more than one byte.\<close>

fun utf8_seq_ok :: "nat list \<Rightarrow> bool" where
  "utf8_seq_ok [b1, b2] = (0xC2 \<le> b1 \<and> b1 \<le> 0xDF \<and> utf8_cont b2)"
| "utf8_seq_ok [b1, b2, b3] =
     (((b1 = 0xE0 \<and> 0xA0 \<le> b2 \<and> b2 \<le> 0xBF)
       \<or> (0xE1 \<le> b1 \<and> b1 \<le> 0xEC \<and> utf8_cont b2)
       \<or> (b1 = 0xED \<and> 0x80 \<le> b2 \<and> b2 \<le> 0x9F)
       \<or> (0xEE \<le> b1 \<and> b1 \<le> 0xEF \<and> utf8_cont b2))
      \<and> utf8_cont b3)"
| "utf8_seq_ok [b1, b2, b3, b4] =
     (((b1 = 0xF0 \<and> 0x90 \<le> b2 \<and> b2 \<le> 0xBF)
       \<or> (0xF1 \<le> b1 \<and> b1 \<le> 0xF3 \<and> utf8_cont b2)
       \<or> (b1 = 0xF4 \<and> 0x80 \<le> b2 \<and> b2 \<le> 0x8F))
      \<and> utf8_cont b3 \<and> utf8_cont b4)"
| "utf8_seq_ok _ = False"

text \<open>A string is well-formed UTF-8.\<close>

fun utf8_valid :: "nat list \<Rightarrow> bool" where
  "utf8_valid [] = True"
| "utf8_valid (b # bs) =
     (if b < 0x80 then utf8_valid bs
      else utf8_seq_len b \<noteq> 0 \<and> utf8_seq_len b - 1 \<le> length bs
           \<and> utf8_seq_ok (b # take (utf8_seq_len b - 1) bs)
           \<and> utf8_valid (drop (utf8_seq_len b - 1) bs))"

definition well_formed :: "string \<Rightarrow> bool" where
  "well_formed s = utf8_valid (map of_char s)"

text \<open>
  \<open>Buffer.from(s)\<close>, the UTF-8 form of a string: a lone surrogate becomes U+FFFD.
\<close>

fun Buffer_from :: "string \<Rightarrow> string" where
  "Buffer_from (a # b # c # r) =
     (if a = CHR 0xED \<and> 0xA0 \<le> (of_char b :: nat) \<and> (of_char b :: nat) \<le> 0xBF
      then [CHR 0xEF, CHR 0xBF, CHR 0xBD] @ Buffer_from r
      else a # Buffer_from (b # c # r))"
| "Buffer_from s = s"

subsection \<open>\<open>Buffer.from(message).toString("base64")\<close>\<close>

definition b64_alphabet :: string where
  "b64_alphabet = ''ABCDEFGHIJKLMNOPQRSTUVWXYZabcdefghijklmnopqrstuvwxyz0123456789+/''"

definition b64 :: "nat \<Rightarrow> char" where
  "b64 n = b64_alphabet ! n"

fun base64 :: "nat list \<Rightarrow> string" where
  "base64 (a # b # c # r) =
     [b64 (a div 4), b64 ((a mod 4) * 16 + b div 16), b64 ((b mod 16) * 4 + c div 64),
      b64 (c mod 64)] @ base64 r"
| "base64 [a, b] =
     [b64 (a div 4), b64 ((a mod 4) * 16 + b div 16), b64 ((b mod 16) * 4), CHR ''='']"
| "base64 [a] = [b64 (a div 4), b64 ((a mod 4) * 16), CHR ''='', CHR ''='']"
| "base64 [] = []"

text \<open>
  \<open>Buffer.from(s).toString("base64")\<close> with the three replacements of \<open>createGmailMessage\<close>:
  \<open>.replace(/\+/g, "-").replace(/\//g, "_").replace(/=+$/, "")\<close>.
\<close>

definition base64url :: "string \<Rightarrow> string" where
  "base64url s =
     rev (dropWhile (\<lambda>c. c = CHR ''='')
       (rev (map (\<lambda>c. if c = CHR ''/'' then CHR ''_'' else c)
         (map (\<lambda>c. if c = CHR ''+'' then CHR ''-'' else c)
           (base64 (map of_char (Buffer_from s)))))))"

subsection \<open>\<open>encodeURIComponent\<close>\<close>

text \<open>
  Letters, digits and \<open>- _ . ! ~ * ' ( )\<close> are kept; every other byte of the UTF-8
  form becomes \<open>%XX\<close> with upper-case hexadecimal digits (\<open>percent_encode\<close>). On a string
  with a lone surrogate \<open>encodeURIComponent\<close> throws a \<open>URIError\<close>: the result is \<open>None\<close>.
\<close>

definition uri_unreserved :: "char \<Rightarrow> bool" where
  "uri_unreserved c =
     (let n = (of_char c :: nat) in
        (65 \<le> n \<and> n \<le> 90) \<or> (97 \<le> n \<and> n \<le> 122) \<or> (48 \<le> n \<and> n \<le> 57)
        \<or> c \<in> set (''-_.!~*()'' @ [CHR 0x27]))"

definition hex_digit :: "nat \<Rightarrow> char" where
  "hex_digit n = ''0123456789ABCDEF'' ! n"

definition pct_encode :: "char \<Rightarrow> string" where
  "pct_encode c =
     [CHR ''%'', hex_digit ((of_char c :: nat) div 16), hex_digit ((of_char c :: nat) mod 16)]"

definition percent_encode :: "string \<Rightarrow> string" where
  "percent_encode s =
     concat (map (\<lambda>c. if uri_unreserved c then [c] else pct_encode c) s)"

definition encodeURIComponent :: "string \<Rightarrow> string option" where
  "encodeURIComponent s = (if well_formed s then Some (percent_encode s) else None)"

section \<open>Data model\<close>

datatype oauth_provider = google | microsoft

record IOAuthConnection =
  conn_provider :: oauth_provider
  providerId :: string
  conn_email :: string
  accessToken :: string
  refreshToken :: "string option"

record IUser =
  user_id :: string
  connectedProviders :: "IOAuthConnection list"

datatype mail_provider = gmail | outlook

record SendEmailRequest =
  to :: "string list"
  cc :: "string list option"
  bcc :: "string list option"
  subject :: string
  body :: string
  htmlBody :: "string option"
  provider :: mail_provider

text \<open>The object built by \<open>createOutlookMessage\<close>.\<close>

datatype content_type = HTML | Text

record outlook_message =
  om_subject :: string
  om_contentType :: content_type
  om_content :: string
  toRecipients :: "string list"
  ccRecipients :: "string list option"
  bccRecipients :: "string list option"

text \<open>The result of \<open>sendEmailWithTracking\<close>.\<close>

record send_result =
  messageId :: string
  sentCount :: nat

text \<open>The documents of the two collections (\<open>Email\<close> and \<open>EmailTracking\<close>).\<close>

datatype email_status = sent | failed | draft

record email_doc =
  e_id :: string
  e_userId :: string
  e_messageId :: "string option"
  e_subject :: string
  e_to :: "string list"
  e_cc :: "string list"
  e_bcc :: "string list"
  e_body :: string
  e_htmlBody :: "string option"
  sendTimestamp :: int
  e_status :: email_status
  e_provider :: mail_provider
  e_trackingId :: string
  e_error :: "string option"

datatype event_type = open_event | click_event | reply_event | forward_event

record tracking_doc =
  t_trackingId :: string
  t_emailId :: string
  t_eventType :: event_type
  t_timestamp :: int
  t_ipAddress :: "string option"
  t_userAgent :: "string option"
  t_clickedUrl :: "string option"
  t_recipientEmail :: "string option"
  t_meta_timestamp :: int
  t_meta_referer :: "string option"
  t_meta_acceptLanguage :: "string option"

section \<open>The environment and the state\<close>

text \<open>
  What the code reads from its platform is an oracle of the environment: the configuration,
  the clock, the random number generator, the identifiers minted by
  \<open>new mongoose.Types.ObjectId()\<close>, the outcome of each call of
  \<open>gmail.users.messages.send\<close> (a thrown error, or the \<open>data.id\<close> of the response) and
  whether \<open>new URL(s)\<close> accepts a string. The clock, the generator and the two others answer
  their \<open>k\<close>-th query, so two queries may differ.

  \<open>math_random\<close> gives the draw as \<open>Math.random().toString(36)\<close> renders it, and
  \<open>TRACKING_COOLDOWN_SECONDS\<close> is the integer that \<open>parseInt\<close> has read (a setting that is
  not a number is left out).

  The texts of the errors that the database library words itself are parameters too:
  \<open>msg_required path\<close> and \<open>msg_maxlength path value max\<close> for the built-in validators
  \<open>required\<close> and \<open>maxlength\<close>, and \<open>msg_duplicate_key trackingId\<close> for the refusal of the
  unique index.
\<close>

record env =
  APP_URL :: string
  TRACKING_COOLDOWN_SECONDS :: int
  date_now :: "nat \<Rightarrow> int"
  math_random :: "nat \<Rightarrow> string"
  new_object_id :: "nat \<Rightarrow> string"
  gmail_messages_send :: "nat \<Rightarrow> string \<Rightarrow> js_error + string"
  url_parses :: "string \<Rightarrow> bool"
  msg_required :: "string \<Rightarrow> string"
  msg_maxlength :: "string \<Rightarrow> string \<Rightarrow> int \<Rightarrow> string"
  msg_duplicate_key :: "string \<Rightarrow> string"

text \<open>
  The state: how many queries each oracle has answered, the requests submitted to a mail
  provider (\<open>provider_requests\<close>, the \<open>raw\<close> payloads), the two collections, and a history
  of the calls of the two transports with the message each was given.
\<close>

record world =
  clock_reads :: nat
  random_draws :: nat
  ids_minted :: nat
  provider_requests :: "string list"
  transport_calls :: "(mail_provider \<times> SendEmailRequest) list"
  emails :: "email_doc list"
  trackings :: "tracking_doc list"

definition Date_now :: "env \<Rightarrow> world \<Rightarrow> int \<times> world" where
  "Date_now e w = (date_now e (clock_reads w), w\<lparr>clock_reads := Suc (clock_reads w)\<rparr>)"

definition Math_random :: "env \<Rightarrow> world \<Rightarrow> string \<times> world" where
  "Math_random e w = (math_random e (random_draws w), w\<lparr>random_draws := Suc (random_draws w)\<rparr>)"

definition ObjectId :: "env \<Rightarrow> world \<Rightarrow> string \<times> world" where
  "ObjectId e w = (new_object_id e (ids_minted w), w\<lparr>ids_minted := Suc (ids_minted w)\<rparr>)"

section \<open>The mail service\<close>

subsection \<open>Provider messages\<close>

definition createGmailMessage :: "env \<Rightarrow> SendEmailRequest \<Rightarrow> world \<Rightarrow> string \<times> world" where
  "createGmailMessage e emailData w =
     (let m1 = ''To: '' @ join '', '' (to emailData) @ CRLF;
          m2 = (case cc emailData of
                  Some (c # cs) \<Rightarrow> m1 @ ''Cc: '' @ join '', '' (c # cs) @ CRLF
                | _ \<Rightarrow> m1);
          m3 = (case bcc emailData of
                  Some (c # cs) \<Rightarrow> m2 @ ''Bcc: '' @ join '', '' (c # cs) @ CRLF
                | _ \<Rightarrow> m2);
          m4 = m3 @ ''Subject: '' @ subject emailData @ CRLF;
          m5 = m4 @ ''MIME-Version: 1.0'' @ CRLF
      in case htmlBody emailData of
           Some (h # hs) \<Rightarrow>
             (let (now, w1) = Date_now e w;
                  (r, w2) = Math_random e w1;
                  boundary = ''boundary_'' @ show_int now @ ''_'' @ substr r 2 9;
                  m6 = m5 @ ''Content-Type: multipart/alternative; boundary='' @ [CHR 0x22]
                         @ boundary @ [CHR 0x22] @ CRLF @ CRLF;
                  m7 = m6 @ ''--'' @ boundary @ CRLF;
                  m8 = m7 @ ''Content-Type: text/plain; charset=UTF-8'' @ CRLF @ CRLF;
                  m9 = m8 @ body emailData @ CRLF @ CRLF;
                  m10 = m9 @ ''--'' @ boundary @ CRLF;
                  m11 = m10 @ ''Content-Type: text/html; charset=UTF-8'' @ CRLF @ CRLF;
                  m12 = m11 @ (h # hs) @ CRLF @ CRLF;
                  m13 = m12 @ ''--'' @ boundary @ ''--'' @ CRLF
              in (base64url m13, w2))
         | _ \<Rightarrow>
             (base64url (m5 @ ''Content-Type: text/plain; charset=UTF-8'' @ CRLF @ CRLF
                          @ body emailData), w))"

definition createOutlookMessage :: "SendEmailRequest \<Rightarrow> outlook_message" where
  "createOutlookMessage emailData =
     \<lparr>om_subject = subject emailData,
      om_contentType = (case htmlBody emailData of Some (h # hs) \<Rightarrow> HTML | _ \<Rightarrow> Text),
      om_content = (case htmlBody emailData of Some (h # hs) \<Rightarrow> h # hs | _ \<Rightarrow> body emailData),
      toRecipients = to emailData,
      ccRecipients = (case cc emailData of Some (c # cs) \<Rightarrow> Some (c # cs) | _ \<Rightarrow> None),
      bccRecipients = (case bcc emailData of Some (c # cs) \<Rightarrow> Some (c # cs) | _ \<Rightarrow> None)\<rparr>"

subsection \<open>The Gmail transport\<close>

definition gmail_auth_expired :: string where
  "gmail_auth_expired =
     ''Gmail authentication expired. Please reconnect your Google account in Settings.''"

text \<open>
  The \<open>try\<close> block of \<open>sendGmailEmail\<close>: \<open>Inl\<close> is the value it throws. While it sends,
  the OAuth client may refresh the access token; the \<open>tokens\<close> listener then stores the new
  tokens in the \<open>User\<close> collection. The dispatch reads the tokens of the user object it was
  handed and never that collection, which is not part of the state here.
\<close>

definition sendGmailEmail_try ::
  "env \<Rightarrow> IUser \<Rightarrow> SendEmailRequest \<Rightarrow> world \<Rightarrow> (js_error + string) \<times> world" where
  "sendGmailEmail_try e user emailData w =
     (case find (\<lambda>conn. conn_provider conn = google) (connectedProviders user) of
        None \<Rightarrow> (Inl (Error ''No Google account connected''), w)
      | Some googleConnection \<Rightarrow>
          if accessToken googleConnection = []
          then (Inl (Error ''No access token available for Google account''), w)
          else
            (let (raw, w1) = createGmailMessage e emailData w;
                 response = gmail_messages_send e (length (provider_requests w1)) raw
             in (response, w1\<lparr>provider_requests := provider_requests w1 @ [raw]\<rparr>)))"

text \<open>The \<open>catch\<close> block: the value it throws for the caught \<open>error\<close>.\<close>

definition sendGmailEmail_catch :: "js_error \<Rightarrow> js_error" where
  "sendGmailEmail_catch error =
     (if code error = Some 401 then Error gmail_auth_expired
      else case message error of
             None \<Rightarrow> TypeError_includes
           | Some m \<Rightarrow>
               if str_includes m ''invalid_grant'' \<or> str_includes m ''access_token''
                  \<or> str_includes m ''refresh''
               then Error gmail_auth_expired
               else Error (''Failed to send Gmail email: ''
                           @ (if m = [] then ''Unknown error'' else m)))"

definition sendGmailEmail ::
  "env \<Rightarrow> IUser \<Rightarrow> SendEmailRequest \<Rightarrow> world \<Rightarrow> (js_error + string) \<times> world" where
  "sendGmailEmail e user emailData w =
     (let w0 = w\<lparr>transport_calls := transport_calls w @ [(gmail, emailData)]\<rparr>;
          (r, w1) = sendGmailEmail_try e user emailData w0
      in case r of
           Inl error \<Rightarrow> (Inl (sendGmailEmail_catch error), w1)
         | Inr response_data_id \<Rightarrow> (Inr response_data_id, w1))"

subsection \<open>The Outlook transport\<close>

definition outlook_auth_expired :: string where
  "outlook_auth_expired =
     ''Outlook authentication expired. Please reconnect your Microsoft account in Settings.''"

text \<open>
  The \<open>try\<close> block of \<open>sendOutlookEmail\<close>. The message object is built and not used: the
  block holds no request to a provider, and the identifier it returns is made of the clock
  and a random draw.
\<close>

definition sendOutlookEmail_try ::
  "env \<Rightarrow> IUser \<Rightarrow> SendEmailRequest \<Rightarrow> world \<Rightarrow> (js_error + string) \<times> world" where
  "sendOutlookEmail_try e user emailData w =
     (case find (\<lambda>conn. conn_provider conn = microsoft) (connectedProviders user) of
        None \<Rightarrow> (Inl (Error ''No Microsoft account connected''), w)
      | Some microsoftConnection \<Rightarrow>
          if accessToken microsoftConnection = []
          then (Inl (Error ''No access token available for Microsoft account''), w)
          else
            (let outlookMessage = createOutlookMessage emailData;
                 (now, w1) = Date_now e w;
                 (r, w2) = Math_random e w1
             in (Inr (''outlook_'' @ show_int now @ ''_'' @ substr r 2 9), w2)))"

definition sendOutlookEmail_catch :: "js_error \<Rightarrow> js_error" where
  "sendOutlookEmail_catch error =
     (if response_status error = Some 401 then Error outlook_auth_expired
      else Error (''Failed to send Outlook email: ''
                  @ (case message error of
                       None \<Rightarrow> ''Unknown error''
                     | Some m \<Rightarrow> if m = [] then ''Unknown error'' else m)))"

definition sendOutlookEmail ::
  "env \<Rightarrow> IUser \<Rightarrow> SendEmailRequest \<Rightarrow> world \<Rightarrow> (js_error + string) \<times> world" where
  "sendOutlookEmail e user emailData w =
     (let w0 = w\<lparr>transport_calls := transport_calls w @ [(outlook, emailData)]\<rparr>;
          (r, w1) = sendOutlookEmail_try e user emailData w0
      in case r of
           Inl error \<Rightarrow> (Inl (sendOutlookEmail_catch error), w1)
         | Inr mid \<Rightarrow> (Inr mid, w1))"

subsection \<open>The content rewriter\<close>

text \<open>
  The white space of a regular expression (\<open>\s\<close>) and of \<open>trim\<close>, as UTF-8 byte sequences:
  tab, line feed, vertical tab, form feed, carriage return, space, U+00A0, U+1680,
  U+2000 to U+200A, U+2028, U+2029, U+202F, U+205F, U+3000 and U+FEFF.
\<close>

definition js_space_seqs :: "nat list list" where
  "js_space_seqs =
     [[9], [10], [11], [12], [13], [32], [0xC2, 0xA0], [0xE1, 0x9A, 0x80]]
     @ map (\<lambda>k. [0xE2, 0x80, 0x80 + k]) [0..<11]
     @ [[0xE2, 0x80, 0xA8], [0xE2, 0x80, 0xA9], [0xE2, 0x80, 0xAF], [0xE2, 0x81, 0x9F],
        [0xE3, 0x80, 0x80], [0xEF, 0xBB, 0xBF]]"

text \<open>The number of bytes of the white space character at the head of \<open>s\<close>; 0 if none.\<close>

definition space_at :: "string \<Rightarrow> nat" where
  "space_at s =
     (case find (\<lambda>ws. prefix ws (map of_char s)) js_space_seqs of
        None \<Rightarrow> 0
      | Some ws \<Rightarrow> length ws)"

text \<open>
  The regular expression \<open>/https?:\/\/[^\s<>"]+/gi\<close>. \<open>url_run\<close> is the longest run of
  \<open>[^\s<>"]\<close> at the head of a string; \<open>url_match\<close> is the match that starts at the head,
  if there is one.
\<close>

fun url_run :: "string \<Rightarrow> string" where
  "url_run [] = []"
| "url_run (c # cs) =
     (if space_at (c # cs) = 0 \<and> c \<noteq> CHR ''<'' \<and> c \<noteq> CHR ''>'' \<and> c \<noteq> CHR 0x22
      then c # url_run cs else [])"

definition lower_ascii :: "char \<Rightarrow> char" where
  "lower_ascii c =
     (if 65 \<le> (of_char c :: nat) \<and> (of_char c :: nat) \<le> 90
      then char_of ((of_char c :: nat) + 32) else c)"

definition url_match :: "string \<Rightarrow> string option" where
  "url_match s =
     (if map lower_ascii (take 4 s) = ''http''
      then
        (let r = drop 4 s;
             n = (if r \<noteq> [] \<and> lower_ascii (hd r) = CHR ''s'' then 5 else 4);
             run = url_run (drop (n + 3) s)
         in if take 3 (drop n s) = ''://'' \<and> run \<noteq> []
            then Some (take (n + 3) s @ run) else None)
      else None)"

text \<open>
  \<open>content.replace(urlRegex, f)\<close>: every match, from left to right and without overlap, is
  replaced by what \<open>f\<close> returns for it; if \<open>f\<close> throws for a match (\<open>None\<close>), so does the
  replacement. The counter is the number of characters of the current match that are still
  to be skipped.
\<close>

fun replace_urls :: "(string \<Rightarrow> string option) \<Rightarrow> nat \<Rightarrow> string \<Rightarrow> string option" where
  "replace_urls f k [] = Some []"
| "replace_urls f (Suc k) (c # cs) = replace_urls f k cs"
| "replace_urls f 0 (c # cs) =
     (case url_match (c # cs) of
        None \<Rightarrow> map_option ((#) c) (replace_urls f 0 cs)
      | Some url \<Rightarrow>
          (case f url of
             None \<Rightarrow> None
           | Some t \<Rightarrow> map_option ((@) t) (replace_urls f (length url - 1) cs)))"

text \<open>The two tracking URLs; \<open>None\<close> when \<open>encodeURIComponent\<close> throws.\<close>

definition trackingPixelUrl :: "env \<Rightarrow> string \<Rightarrow> string \<Rightarrow> string option" where
  "trackingPixelUrl e trackingId recipientEmail =
     (case encodeURIComponent recipientEmail of
        None \<Rightarrow> None
      | Some r \<Rightarrow> Some (APP_URL e @ ''/api/tracking/pixel/'' @ trackingId @ ''/'' @ r))"

definition trackingUrl :: "env \<Rightarrow> string \<Rightarrow> string \<Rightarrow> string \<Rightarrow> string option" where
  "trackingUrl e trackingId recipientEmail url =
     (case encodeURIComponent url of
        None \<Rightarrow> None
      | Some u \<Rightarrow>
          (case encodeURIComponent recipientEmail of
             None \<Rightarrow> None
           | Some r \<Rightarrow>
               Some (APP_URL e @ ''/api/tracking/click/'' @ trackingId @ ''/'' @ u @ ''/'' @ r)))"

definition addClickTrackingForRecipient ::
  "env \<Rightarrow> string \<Rightarrow> string \<Rightarrow> string \<Rightarrow> bool \<Rightarrow> string option" where
  "addClickTrackingForRecipient e content trackingId recipientEmail isHtml =
     replace_urls
       (\<lambda>url. if isHtml then trackingUrl e trackingId recipientEmail url
              else trackingUrl e trackingId recipientEmail url)
       0 content"

definition html_head :: string where
  \<open>html_head =
     ''\<newline>        <html>\<newline>          <body>\<newline>            <pre style="font-family: inherit; white-space: pre-wrap;">''\<close>

definition html_mid :: string where
  \<open>html_mid = ''</pre>\<newline>            <img src="''\<close>

definition html_tail :: string where
  \<open>html_tail =
     ''" width="1" height="1" style="display:none;" alt="" />\<newline>          </body>\<newline>        </html>\<newline>      ''\<close>

text \<open>
  The result is the pair \<open>(body, htmlBody)\<close>, or the \<open>URIError\<close> thrown while a link of the
  body is rewritten or while the pixel URL is built.
\<close>

definition processEmailWithRecipientTracking ::
  "env \<Rightarrow> SendEmailRequest \<Rightarrow> string \<Rightarrow> string \<Rightarrow> js_error + string \<times> string" where
  "processEmailWithRecipientTracking e emailData trackingId recipientEmail =
     (case addClickTrackingForRecipient e (body emailData) trackingId recipientEmail False of
        None \<Rightarrow> Inl URIError
      | Some processedBody \<Rightarrow>
          (case trackingPixelUrl e trackingId recipientEmail of
             None \<Rightarrow> Inl URIError
           | Some pixelUrl \<Rightarrow>
               Inr (processedBody,
                    html_head @ processedBody @ html_mid @ pixelUrl @ html_tail)))"

subsection \<open>The dispatch\<close>

text \<open>
  The message of one recipient, built at the head of the \<open>try\<close> block of the loop; \<open>Inl\<close> is
  the error thrown by the rewriting.
\<close>

definition individualEmailData ::
  "env \<Rightarrow> SendEmailRequest \<Rightarrow> string \<Rightarrow> string \<Rightarrow> js_error + SendEmailRequest" where
  "individualEmailData e emailData trackingId recipient =
     (case processEmailWithRecipientTracking e emailData trackingId recipient of
        Inl error \<Rightarrow> Inl error
      | Inr (b, h) \<Rightarrow>
          Inr (emailData\<lparr>to := [recipient], cc := Some [], bcc := Some [], body := b,
                         htmlBody := Some h\<rparr>))"

text \<open>
  The body of the \<open>try\<close> block of the loop, for one recipient: \<open>Inl\<close> is the error it throws,
  \<open>Inr\<close> the \<open>messageId\<close> of the transport's response. When the rewriting throws, the
  transport is not called.
\<close>

definition send_one ::
  "env \<Rightarrow> IUser \<Rightarrow> SendEmailRequest \<Rightarrow> string \<Rightarrow> string \<Rightarrow> world
   \<Rightarrow> (js_error + string) \<times> world" where
  "send_one e user emailData trackingId recipient w =
     (case individualEmailData e emailData trackingId recipient of
        Inl error \<Rightarrow> (Inl error, w)
      | Inr individual \<Rightarrow>
          if provider emailData = gmail then sendGmailEmail e user individual w
          else sendOutlookEmail e user individual w)"

text \<open>
  The loop over \<open>allRecipients\<close>, with the variables \<open>sentCount\<close> and \<open>messageIds\<close>; the
  \<open>catch\<close> of the loop logs the error and goes on.
\<close>

fun send_loop ::
  "env \<Rightarrow> IUser \<Rightarrow> SendEmailRequest \<Rightarrow> string \<Rightarrow> string list
   \<Rightarrow> nat \<times> string list \<times> world \<Rightarrow> nat \<times> string list \<times> world" where
  "send_loop e user emailData trackingId [] st = st"
| "send_loop e user emailData trackingId (recipient # rest) (count, messageIds, w) =
     (case send_one e user emailData trackingId recipient w of
        (Inr mid, w') \<Rightarrow>
          send_loop e user emailData trackingId rest (Suc count, messageIds @ [mid], w')
      | (Inl error, w') \<Rightarrow>
          send_loop e user emailData trackingId rest (count, messageIds, w'))"

definition allRecipients :: "SendEmailRequest \<Rightarrow> string list" where
  "allRecipients emailData =
     to emailData @ (case cc emailData of None \<Rightarrow> [] | Some c \<Rightarrow> c)
     @ (case bcc emailData of None \<Rightarrow> [] | Some b \<Rightarrow> b)"

text \<open>
  \<open>messageIds[0] || "bulk_send_" + Date.now()\<close>: the clock is read only when the first
  identifier is missing or empty.
\<close>

definition sendEmailWithTracking ::
  "env \<Rightarrow> IUser \<Rightarrow> SendEmailRequest \<Rightarrow> string \<Rightarrow> world
   \<Rightarrow> (js_error + send_result) \<times> world" where
  "sendEmailWithTracking e user emailData trackingId w =
     (case send_loop e user emailData trackingId (allRecipients emailData) (0, [], w) of
        (count, messageIds, w1) \<Rightarrow>
          (case messageIds of
             (c # cs) # _ \<Rightarrow> (Inr \<lparr>messageId = c # cs, sentCount = count\<rparr>, w1)
           | _ \<Rightarrow>
               (let (now, w2) = Date_now e w1
                in (Inr \<lparr>messageId = ''bulk_send_'' @ show_int now, sentCount = count\<rparr>, w2))))"

section \<open>Regular expressions\<close>

text \<open>
  The patterns of the validators are anchored at both ends, so \<open>regex.test(s)\<close> asks
  whether the whole of \<open>s\<close> is in the language of the pattern. An atom consumes one byte,
  and may look at what follows it (a white space character can be several bytes long).
  \<open>rx_step r rs\<close> is the list of what can remain of the strings \<open>rs\<close> once a prefix of
  them has matched \<open>r\<close>.
\<close>

datatype rx = Eps | Atom "string \<Rightarrow> bool" | Seq rx rx | Alt rx rx | Star rx

fun rx_iter :: "nat \<Rightarrow> (string list \<Rightarrow> string list) \<Rightarrow> string list \<Rightarrow> string list" where
  "rx_iter 0 f rs = rs"
| "rx_iter (Suc n) f rs =
     (if list_all (\<lambda>r. r \<in> set rs) (f rs) then rs
      else rx_iter n f (remdups (rs @ f rs)))"

primrec rx_step :: "rx \<Rightarrow> string list \<Rightarrow> string list" where
  "rx_step Eps rs = rs"
| "rx_step (Atom p) rs = map tl (filter (\<lambda>r. r \<noteq> [] \<and> p r) rs)"
| "rx_step (Seq a b) rs = rx_step b (rx_step a rs)"
| "rx_step (Alt a b) rs = remdups (rx_step a rs @ rx_step b rs)"
| "rx_step (Star a) rs =
     rx_iter (Suc (foldr (\<lambda>r n. max (length r) n) rs 0)) (rx_step a) rs"

definition rx_test :: "rx \<Rightarrow> string \<Rightarrow> bool" where
  "rx_test r s = ([] \<in> set (rx_step r [s]))"

definition chr :: "char \<Rightarrow> rx" where
  "chr c = Atom (\<lambda>r. hd r = c)"

definition cls :: "string \<Rightarrow> rx" where
  "cls cs = Atom (\<lambda>r. hd r \<in> set cs)"

definition plus :: "rx \<Rightarrow> rx" where
  "plus r = Seq r (Star r)"

definition opt :: "rx \<Rightarrow> rx" where
  "opt r = Alt r Eps"

fun rep :: "nat \<Rightarrow> rx \<Rightarrow> rx" where
  "rep 0 r = Eps"
| "rep (Suc n) r = Seq r (rep n r)"

definition digit :: rx where
  "digit = cls ''0123456789''"

definition word_char :: rx where
  "word_char = cls ''ABCDEFGHIJKLMNOPQRSTUVWXYZabcdefghijklmnopqrstuvwxyz0123456789_''"

text \<open>\<open>[^\s@]\<close>\<close>

definition not_space_at :: rx where
  "not_space_at = Atom (\<lambda>r. space_at r = 0 \<and> hd r \<noteq> CHR ''@'')"

text \<open>\<open>/^[^\s@]+@[^\s@]+\.[^\s@]+$/\<close>, of the \<open>EmailTracking\<close> schema.\<close>

definition emailRegex :: rx where
  "emailRegex =
     Seq (plus not_space_at) (Seq (chr CHR ''@'')
       (Seq (plus not_space_at) (Seq (chr CHR ''.'') (plus not_space_at))))"

text \<open>\<open>/^\w+([.-]?\w+)*@\w+([.-]?\w+)*(\.\w{2,3})+$/\<close>, of the \<open>Email\<close> schema.\<close>

definition recipientRegex :: rx where
  "recipientRegex =
     (let words = Seq (plus word_char) (Star (Seq (opt (cls ''.-'')) (plus word_char)))
      in Seq words (Seq (chr CHR ''@'') (Seq words
           (plus (Seq (chr CHR ''.'') (Seq word_char (Seq word_char (opt word_char))))))))"

text \<open>
  \<open>/^(?:(?:25[0-5]|2[0-4][0-9]|[01]?[0-9][0-9]?)\.){3}(?:25[0-5]|2[0-4][0-9]|[01]?[0-9][0-9]?)$/\<close>
\<close>

definition ipv4Regex :: rx where
  "ipv4Regex =
     (let octet =
            Alt (Seq (chr CHR ''2'') (Seq (chr CHR ''5'') (cls ''012345'')))
              (Alt (Seq (chr CHR ''2'') (Seq (cls ''01234'') digit))
                 (Seq (opt (cls ''01'')) (Seq digit (opt digit))))
      in Seq (rep 3 (Seq octet (chr CHR ''.''))) octet)"

text \<open>\<open>/^(?:[0-9a-fA-F]{1,4}:){7}[0-9a-fA-F]{1,4}$/\<close>\<close>

definition ipv6Regex :: rx where
  "ipv6Regex =
     (let h = cls ''0123456789abcdefABCDEF'';
          group = Seq h (opt (Seq h (opt (Seq h (opt h)))))
      in Seq (rep 7 (Seq group (chr CHR '':''))) group)"

section \<open>The collections\<close>

text \<open>
  \<open>maxlength\<close> counts UTF-16 code units: one for each character, two for a character
  outside the basic plane (four bytes in UTF-8).
\<close>

definition utf16_length :: "string \<Rightarrow> int" where
  "utf16_length s =
     int (length (filter (\<lambda>c. (of_char c :: nat) < 0x80 \<or> 0xC0 \<le> (of_char c :: nat)) s))
     + int (length (filter (\<lambda>c. 0xF0 \<le> (of_char c :: nat)) s))"

text \<open>\<open>s.trim()\<close>; the counter is the number of bytes of a white space character left to drop.\<close>

fun trim_from :: "(string \<Rightarrow> nat) \<Rightarrow> nat \<Rightarrow> string \<Rightarrow> string" where
  "trim_from sp k [] = []"
| "trim_from sp (Suc k) (c # cs) = trim_from sp k cs"
| "trim_from sp 0 (c # cs) =
     (if sp (c # cs) = 0 then c # cs else trim_from sp (sp (c # cs) - 1) cs)"

definition space_at_rev :: "string \<Rightarrow> nat" where
  "space_at_rev r =
     (case find (\<lambda>ws. prefix (rev ws) (map of_char r)) js_space_seqs of
        None \<Rightarrow> 0
      | Some ws \<Rightarrow> length ws)"

definition trim :: "string \<Rightarrow> string" where
  "trim s = rev (trim_from space_at_rev 0 (rev (trim_from space_at 0 s)))"

text \<open>
  \<open>s.toLowerCase()\<close> on the letters of ASCII. The \<open>pre("save")\<close> hook of the \<open>Email\<close> schema
  applies it to recipients that have passed \<open>recipientRegex\<close>, which admits no other letter.
\<close>

definition toLowerCase :: "string \<Rightarrow> string" where
  "toLowerCase s = map lower_ascii s"

text \<open>
  A failed validation throws a \<open>ValidationError\<close> whose message names the model and lists,
  for each failing path, the path and the message of its first failing validator, in the
  order in which the document was given its paths.
\<close>

definition validation_message :: "string \<Rightarrow> (string \<times> string) list \<Rightarrow> string" where
  "validation_message model errors =
     model @ '' validation failed: ''
     @ join '', '' (map (\<lambda>(path, msg). path @ '': '' @ msg) errors)"

text \<open>
  The validators of the \<open>Email\<close> schema: the failing paths with their messages. \<open>required\<close>
  refuses the empty string, and the custom validator of \<open>recipients.to\<close> the empty list.
\<close>

definition Email_errors :: "env \<Rightarrow> email_doc \<Rightarrow> (string \<times> string) list" where
  "Email_errors e d =
     (if e_subject d = [] then [(''subject'', msg_required e ''subject'')]
      else if 500 < utf16_length (e_subject d)
      then [(''subject'', msg_maxlength e ''subject'' (e_subject d) 500)]
      else [])
     @ (if e_to d \<noteq> [] \<and> list_all (rx_test recipientRegex) (e_to d) then []
        else [(''recipients.to'', ''At least one valid recipient email is required'')])
     @ (if list_all (rx_test recipientRegex) (e_cc d) then []
        else [(''recipients.cc'', ''Invalid CC email address'')])
     @ (if list_all (rx_test recipientRegex) (e_bcc d) then []
        else [(''recipients.bcc'', ''Invalid BCC email address'')])
     @ (if e_body d = [] then [(''body'', msg_required e ''body'')]
        else if 50000 < utf16_length (e_body d)
        then [(''body'', msg_maxlength e ''body'' (e_body d) 50000)]
        else [])
     @ (case e_htmlBody d of
          None \<Rightarrow> []
        | Some h \<Rightarrow>
            if 100000 < utf16_length h then [(''htmlBody'', msg_maxlength e ''htmlBody'' h 100000)]
            else [])
     @ (if e_trackingId d = [] then [(''trackingId'', msg_required e ''trackingId'')] else [])"

definition Email_pre_save :: "email_doc \<Rightarrow> email_doc" where
  "Email_pre_save d =
     d\<lparr>e_to := map (\<lambda>email. trim (toLowerCase email)) (e_to d),
       e_cc := map (\<lambda>email. trim (toLowerCase email)) (e_cc d),
       e_bcc := map (\<lambda>email. trim (toLowerCase email)) (e_bcc d)\<rparr>"

text \<open>
  \<open>doc.save()\<close> of an \<open>Email\<close>: the validators of the schema, then the \<open>pre("save")\<close> hook,
  then the insertion, which the unique index on \<open>trackingId\<close> may refuse. The hook also
  mints a \<open>trackingId\<close> when there is none, which the validators have excluded by then.
\<close>

definition Email_save :: "env \<Rightarrow> email_doc \<Rightarrow> world \<Rightarrow> (js_error + email_doc) \<times> world" where
  "Email_save e d w =
     (if Email_errors e d \<noteq> []
      then (Inl (Error (validation_message ''Email'' (Email_errors e d))), w)
      else if e_trackingId d \<in> set (map e_trackingId (emails w))
      then (Inl (Error (msg_duplicate_key e (e_trackingId d))), w)
      else (Inr (Email_pre_save d), w\<lparr>emails := emails w @ [Email_pre_save d]\<rparr>))"

text \<open>
  The validators of the \<open>EmailTracking\<close> schema. A validator runs on a path that has a
  value; the three custom ones accept the empty string.
\<close>

definition EmailTracking_errors :: "env \<Rightarrow> tracking_doc \<Rightarrow> (string \<times> string) list" where
  "EmailTracking_errors e d =
     (if t_trackingId d = [] then [(''trackingId'', msg_required e ''trackingId'')] else [])
     @ (case t_ipAddress d of
          None \<Rightarrow> []
        | Some ip \<Rightarrow>
            if ip = [] \<or> rx_test ipv4Regex ip \<or> rx_test ipv6Regex ip then []
            else [(''ipAddress'', ''Invalid IP address format'')])
     @ (case t_userAgent d of
          None \<Rightarrow> []
        | Some ua \<Rightarrow>
            if 1000 < utf16_length ua then [(''userAgent'', msg_maxlength e ''userAgent'' ua 1000)]
            else [])
     @ (case t_clickedUrl d of
          None \<Rightarrow> []
        | Some url \<Rightarrow>
            if 2000 < utf16_length url
            then [(''clickedUrl'', msg_maxlength e ''clickedUrl'' url 2000)]
            else if url = [] \<or> url_parses e url then []
            else [(''clickedUrl'', ''Invalid URL format'')])
     @ (case t_recipientEmail d of
          None \<Rightarrow> []
        | Some email \<Rightarrow>
            if email = [] \<or> rx_test emailRegex email then []
            else [(''recipientEmail'', ''Invalid email format'')])"

text \<open>\<open>doc.save()\<close> of an \<open>EmailTracking\<close>.\<close>

definition EmailTracking_save ::
  "env \<Rightarrow> tracking_doc \<Rightarrow> world \<Rightarrow> (js_error + tracking_doc) \<times> world" where
  "EmailTracking_save e d w =
     (if EmailTracking_errors e d \<noteq> []
      then (Inl (Error (validation_message ''EmailTracking'' (EmailTracking_errors e d))), w)
      else (Inr d, w\<lparr>trackings := trackings w @ [d]\<rparr>))"

text \<open>\<open>Email.findOne({ trackingId })\<close>\<close>

definition Email_findOne :: "string \<Rightarrow> world \<Rightarrow> email_doc option" where
  "Email_findOne trackingId w = find (\<lambda>d. e_trackingId d = trackingId) (emails w)"

section \<open>The HTTP surface\<close>

record json_response =
  status :: int
  success :: bool
  error_text :: "string option"
  message_text :: "string option"
  data :: "(string \<times> string \<times> nat) option"

datatype http_response = Json json_response | Image_png string | Redirect string

text \<open>
  An error thrown by a handler reaches, through \<open>asyncHandler\<close>, the error handler of the
  application. The errors thrown here are those of \<open>save\<close>, which carry no \<open>status\<close>: the
  response has status 500.
\<close>

definition error_handler :: "js_error \<Rightarrow> http_response" where
  "error_handler error =
     Json \<lparr>status = 500, success = False,
           error_text = Some (case message error of
                                Some (c # cs) \<Rightarrow> c # cs
                              | _ \<Rightarrow> ''Internal server error''),
           message_text = None, data = None\<rparr>"

subsection \<open>\<open>POST /send\<close>\<close>

text \<open>
  The handler, once \<open>requireAuth\<close> and \<open>validateEmailSend\<close> have let the request pass;
  \<open>req\<close> is the body of the request, in which \<open>to\<close> is an array.
\<close>

definition post_send :: "env \<Rightarrow> IUser \<Rightarrow> SendEmailRequest \<Rightarrow> world \<Rightarrow> http_response \<times> world" where
  "post_send e user req w =
     (let (trackingId, w1) = ObjectId e w;
          emailData = req\<lparr>cc := Some (case cc req of None \<Rightarrow> [] | Some c \<Rightarrow> c),
                         bcc := Some (case bcc req of None \<Rightarrow> [] | Some b \<Rightarrow> b)\<rparr>;
          (r, w2) = sendEmailWithTracking e user emailData trackingId w1;
          (mid, st, error, count) =
            (case r of
               Inr result \<Rightarrow>
                 (Some (messageId result), if sentCount result > 0 then sent else failed,
                  None, sentCount result)
             | Inl err \<Rightarrow> (None, failed, message err, 0));
          (now, w3) = Date_now e w2;
          (newId, w4) = ObjectId e w3;
          newEmail =
            \<lparr>e_id = newId, e_userId = user_id user, e_messageId = mid,
             e_subject = trim (subject req), e_to = to emailData,
             e_cc = (case cc emailData of None \<Rightarrow> [] | Some c \<Rightarrow> c),
             e_bcc = (case bcc emailData of None \<Rightarrow> [] | Some b \<Rightarrow> b),
             e_body = body req, e_htmlBody = htmlBody req, sendTimestamp = now,
             e_status = st, e_provider = provider req, e_trackingId = trackingId,
             e_error = error\<rparr>
      in case Email_save e newEmail w4 of
           (Inl err, w5) \<Rightarrow> (error_handler err, w5)
         | (Inr saved, w5) \<Rightarrow>
             (if st = sent
              then (Json \<lparr>status = 200, success = True, error_text = None,
                          message_text = Some (''Email sent successfully to '' @ show_int (int count)
                                               @ '' recipient(s)''),
                          data = Some (e_id saved, e_trackingId saved, count)\<rparr>, w5)
              else (Json \<lparr>status = 500, success = False,
                          error_text = Some (case error of
                                               Some (c # cs) \<Rightarrow> c # cs
                                             | _ \<Rightarrow> ''Failed to send email''),
                          message_text = None,
                          data = Some (e_id saved, e_trackingId saved, count)\<rparr>, w5)))"

subsection \<open>The tracking routes\<close>

text \<open>
  A request to a tracking route, as Express hands it to the handler: the parameters of the
  path, decoded, and what the handler reads of the connection and of the headers.
\<close>

record tracking_request =
  p_trackingId :: string
  p_url :: string
  p_recipient :: string
  req_ip :: "string option"
  remoteAddress :: "string option"
  userAgent :: "string option"
  referer :: "string option"
  acceptLanguage :: "string option"

text \<open>\<open>req.ip || req.connection.remoteAddress\<close>\<close>

definition ipAddress :: "tracking_request \<Rightarrow> string option" where
  "ipAddress req = (case req_ip req of Some (c # cs) \<Rightarrow> Some (c # cs) | _ \<Rightarrow> remoteAddress req)"

text \<open>The result is the pair \<open>(isActive, remainingSeconds)\<close>.\<close>

definition checkTrackingCooldown :: "env \<Rightarrow> int \<Rightarrow> world \<Rightarrow> (bool \<times> int) \<times> world" where
  "checkTrackingCooldown e sentTimestamp w =
     (let (now, w1) = Date_now e w;
          timeDifference = now - sentTimestamp;
          cooldownPeriod = TRACKING_COOLDOWN_SECONDS e * 1000;
          isActive = (timeDifference < cooldownPeriod);
          remainingSeconds =
            (if isActive then - ((- (cooldownPeriod - timeDifference)) div 1000) else 0)
      in ((isActive, remainingSeconds), w1))"

definition pixel :: string where
  "pixel = ''iVBORw0KGgoAAAANSUhEUgAAAAEAAAABCAYAAAAfFcSJAAAADUlEQVR42mNkYPhfDwAChwGA60e6kgAAAABJRU5ErkJggg==''"

text \<open>\<open>new EmailTracking({...})\<close>: the clock is read for the metadata, then for \<open>timestamp\<close>.\<close>

definition new_EmailTracking ::
  "env \<Rightarrow> event_type \<Rightarrow> email_doc \<Rightarrow> tracking_request \<Rightarrow> world \<Rightarrow> tracking_doc \<times> world" where
  "new_EmailTracking e ev email req w =
     (let (meta_now, w1) = Date_now e w;
          (now, w2) = Date_now e w1
      in (\<lparr>t_trackingId = p_trackingId req, t_emailId = e_id email, t_eventType = ev,
           t_timestamp = now, t_ipAddress = ipAddress req, t_userAgent = userAgent req,
           t_clickedUrl = (if ev = click_event then Some (p_url req) else None),
           t_recipientEmail = Some (p_recipient req), t_meta_timestamp = meta_now,
           t_meta_referer = referer req, t_meta_acceptLanguage = acceptLanguage req\<rparr>, w2))"

text \<open>\<open>GET /pixel/:trackingId/:recipient\<close>\<close>

definition get_pixel :: "env \<Rightarrow> tracking_request \<Rightarrow> world \<Rightarrow> http_response \<times> world" where
  "get_pixel e req w =
     (if p_trackingId req = []
      then (Json \<lparr>status = 400, success = False,
                  error_text = Some ''Missing or invalid trackingId parameter'',
                  message_text = None, data = None\<rparr>, w)
      else case Email_findOne (p_trackingId req) w of
             Some email \<Rightarrow>
               (let (cooldownStatus, w1) = checkTrackingCooldown e (sendTimestamp email) w
                in if fst cooldownStatus then (Image_png pixel, w1)
                   else
                     (let (trackingEvent, w2) = new_EmailTracking e open_event email req w1
                      in case EmailTracking_save e trackingEvent w2 of
                           (Inl err, w3) \<Rightarrow> (error_handler err, w3)
                         | (Inr saved, w3) \<Rightarrow> (Image_png pixel, w3)))
           | None \<Rightarrow> (Image_png pixel, w))"

text \<open>\<open>GET /click/:trackingId/:url/:recipient\<close>, with its middleware \<open>validateClickTracking\<close>.\<close>

definition get_click :: "env \<Rightarrow> tracking_request \<Rightarrow> world \<Rightarrow> http_response \<times> world" where
  "get_click e req w =
     (if p_trackingId req = [] \<or> p_url req = [] \<or> p_recipient req = []
      then (Json \<lparr>status = 400, success = False, error_text = Some ''Validation failed'',
                  message_text = Some ''Please check your input and try again'',
                  data = None\<rparr>, w)
      else case Email_findOne (p_trackingId req) w of
             Some email \<Rightarrow>
               (let (trackingEvent, w1) = new_EmailTracking e click_event email req w
                in case EmailTracking_save e trackingEvent w1 of
                     (Inl err, w2) \<Rightarrow> (error_handler err, w2)
                   | (Inr saved, w2) \<Rightarrow> (Redirect (p_url req), w2))
           | None \<Rightarrow> (Redirect (p_url req), w))"

section \<open>The routing of a tracking URL\<close>

subsection \<open>\<open>decodeURIComponent\<close>\<close>

definition hex_val :: "char \<Rightarrow> nat option" where
  "hex_val c =
     (let n = (of_char c :: nat) in
        if 48 \<le> n \<and> n \<le> 57 then Some (n - 48)
        else if 65 \<le> n \<and> n \<le> 70 then Some (n - 55)
        else if 97 \<le> n \<and> n \<le> 102 then Some (n - 87)
        else None)"

text \<open>
  The escapes of a string: each byte with a flag, true when the byte was written \<open>%XX\<close>.
  \<open>None\<close> when a \<open>%\<close> is not followed by two hexadecimal digits.
\<close>

fun pct_tokens :: "string \<Rightarrow> (bool \<times> char) list option" where
  "pct_tokens [] = Some []"
| "pct_tokens (c # cs) =
     (if c \<noteq> CHR ''%'' then map_option ((#) (False, c)) (pct_tokens cs)
      else case cs of
             h1 # h2 # r \<Rightarrow>
               (case (hex_val h1, hex_val h2) of
                  (Some a, Some b) \<Rightarrow> map_option ((#) (True, char_of (16 * a + b))) (pct_tokens r)
                | _ \<Rightarrow> None)
           | _ \<Rightarrow> None)"

text \<open>
  An escaped byte below 0x80 is a character. Another escaped byte must open a well-formed
  sequence, all of it escaped. An unescaped byte is kept.
\<close>

fun decode_tokens :: "(bool \<times> char) list \<Rightarrow> string option" where
  "decode_tokens [] = Some []"
| "decode_tokens ((esc, c) # ts) =
     (if \<not> esc \<or> (of_char c :: nat) < 0x80 then map_option ((#) c) (decode_tokens ts)
      else
        (let n = utf8_seq_len (of_char c); octets = take (n - 1) ts
         in if n \<noteq> 0 \<and> length octets = n - 1 \<and> list_all fst octets
               \<and> utf8_seq_ok (of_char c # map (\<lambda>t. of_char (snd t)) octets)
            then map_option ((@) (c # map snd octets)) (decode_tokens (drop (n - 1) ts))
            else None))"

definition decodeURIComponent :: "string \<Rightarrow> string option" where
  "decodeURIComponent s =
     (case pct_tokens s of None \<Rightarrow> None | Some ts \<Rightarrow> decode_tokens ts)"

subsection \<open>The request and the routes\<close>

text \<open>
  The target of the request a client sends for a URL: what follows the scheme and the
  authority.
\<close>

fun after_scheme :: "string \<Rightarrow> string option" where
  "after_scheme (a # b # c # r) =
     (if [a, b, c] = ''://'' then Some r else after_scheme (b # c # r))"
| "after_scheme _ = None"

definition request_target :: "string \<Rightarrow> string option" where
  "request_target url =
     map_option (dropWhile (\<lambda>c. c \<noteq> CHR ''/'' \<and> c \<noteq> CHR ''?'' \<and> c \<noteq> CHR ''#''))
       (after_scheme url)"

text \<open>The path of a target ends where the query or the fragment begins.\<close>

definition request_path :: "string \<Rightarrow> string" where
  "request_path target = takeWhile (\<lambda>c. c \<noteq> CHR ''?'' \<and> c \<noteq> CHR ''#'') target"

text \<open>\<open>s.split("/")\<close>\<close>

fun split_slash :: "string \<Rightarrow> string list" where
  "split_slash [] = [[]]"
| "split_slash (c # cs) =
     (if c = CHR ''/'' then [] # split_slash cs
      else (case split_slash cs of seg # segs \<Rightarrow> (c # seg) # segs | [] \<Rightarrow> [[c]]))"

text \<open>
  The outcome of matching a route: the path is not of the route, or a parameter does not
  decode (status 400), or the decoded parameters.
\<close>

datatype 'a routed = NotFound | BadParam | Matched 'a

text \<open>
  A path of the router mounted at \<open>/api/tracking\<close>. The fixed segments are compared without
  regard to case, a parameter is a non-empty segment, and one trailing slash is allowed.
\<close>

definition route_segments :: "string \<Rightarrow> string list option" where
  "route_segments target =
     (case split_slash (request_path target) of
        r # a # t # segs \<Rightarrow>
          if r = [] \<and> map lower_ascii a = ''api'' \<and> map lower_ascii t = ''tracking''
          then Some (if segs \<noteq> [] \<and> last segs = [] then butlast segs else segs)
          else None
      | _ \<Rightarrow> None)"

text \<open>\<open>/pixel/:trackingId/:recipient\<close>\<close>

definition match_pixel_route :: "string \<Rightarrow> (string \<times> string) routed" where
  "match_pixel_route target =
     (case route_segments target of
        Some [name, t, r] \<Rightarrow>
          if map lower_ascii name = ''pixel'' \<and> t \<noteq> [] \<and> r \<noteq> []
          then (case (decodeURIComponent t, decodeURIComponent r) of
                  (Some trackingId, Some recipient) \<Rightarrow> Matched (trackingId, recipient)
                | _ \<Rightarrow> BadParam)
          else NotFound
      | _ \<Rightarrow> NotFound)"

text \<open>\<open>/click/:trackingId/:url/:recipient\<close>\<close>

definition match_click_route :: "string \<Rightarrow> (string \<times> string \<times> string) routed" where
  "match_click_route target =
     (case route_segments target of
        Some [name, t, u, r] \<Rightarrow>
          if map lower_ascii name = ''click'' \<and> t \<noteq> [] \<and> u \<noteq> [] \<and> r \<noteq> []
          then (case (decodeURIComponent t, decodeURIComponent u, decodeURIComponent r) of
                  (Some trackingId, Some url, Some recipient) \<Rightarrow>
                    Matched (trackingId, url, recipient)
                | _ \<Rightarrow> BadParam)
          else NotFound
      | _ \<Rightarrow> NotFound)"

section \<open>Reference notions\<close>

text \<open>
  The outcome of the transport for each recipient of a dispatch, in the order of the loop:
  what the loop of \<open>sendEmailWithTracking\<close> sees, one recipient after the other.
\<close>

fun transport_outcomes ::
  "env \<Rightarrow> IUser \<Rightarrow> SendEmailRequest \<Rightarrow> string \<Rightarrow> string list \<Rightarrow> world
   \<Rightarrow> (js_error + string) list" where
  "transport_outcomes e user emailData trackingId [] w = []"
| "transport_outcomes e user emailData trackingId (recipient # rest) w =
     (case send_one e user emailData trackingId recipient w of
        (r, w') \<Rightarrow> r # transport_outcomes e user emailData trackingId rest w')"

text \<open>The identifiers of the sends that succeeded.\<close>

definition successes :: "(js_error + string) list \<Rightarrow> string list" where
  "successes rs = concat (map (\<lambda>r. case r of Inl err \<Rightarrow> [] | Inr mid \<Rightarrow> [mid]) rs)"

text \<open>
  The signal of an expired or invalid token as the specification words it: HTTP 401, or an
  error of the \<open>invalid_grant\<close> class.
\<close>

definition spec_auth_signal :: "js_error \<Rightarrow> bool" where
  "spec_auth_signal error =
     (code error = Some 401
      \<or> (case message error of None \<Rightarrow> False | Some m \<Rightarrow> str_includes m ''invalid_grant''))"



section \<open>Example inputs\<close>

text \<open>
  A configuration, a user with both providers connected and one with none, a request, a
  message sent at 1700000000000 ms, and a hit of its tracking URLs; the clock 3 seconds and
  15 seconds after that send; and three answers of the Gmail API. Of \<open>new URL\<close> the examples
  need only that it accepts the destination of the hit; the texts of the library are those
  of its version 8.
\<close>

definition example_env :: env where
  "example_env =
     \<lparr>APP_URL = ''http://localhost:6333'', TRACKING_COOLDOWN_SECONDS = 10,
      date_now = (\<lambda>k. 1700000000000 + int k),
      math_random = (\<lambda>k. ''0.4fzyo82mvyr''),
      new_object_id = (\<lambda>k. ''65f0c0ffee0000000000000'' @ [hex_digit (k mod 16)]),
      gmail_messages_send = (\<lambda>k raw. Inr (''18c'' @ show_int (int k))),
      url_parses = (\<lambda>u. u = ''https://example.com/page''),
      msg_required = (\<lambda>path. ''Path `'' @ path @ ''` is required.''),
      msg_maxlength = (\<lambda>path v n. ''Path `'' @ path @ ''` (`'' @ v
                         @ ''`) is longer than the maximum allowed length (''
                         @ show_int n @ '').''),
      msg_duplicate_key = (\<lambda>t. ''E11000 duplicate key error collection: test.emails index: ''
                             @ ''trackingId_1 dup key: { trackingId: '' @ [CHR 0x22] @ t
                             @ [CHR 0x22] @ '' }'')\<rparr>"

definition example_world :: world where
  "example_world =
     \<lparr>clock_reads = 0, random_draws = 0, ids_minted = 0, provider_requests = [],
      transport_calls = [], emails = [], trackings = []\<rparr>"

definition example_user :: IUser where
  "example_user =
     \<lparr>user_id = ''65f0c0ffee000000000000aa'',
      connectedProviders =
        [\<lparr>conn_provider = google, providerId = ''g-1'', conn_email = ''me@gmail.com'',
          accessToken = ''ya29.a0'', refreshToken = Some ''1//0g''\<rparr>,
         \<lparr>conn_provider = microsoft, providerId = ''m-1'', conn_email = ''me@outlook.com'',
          accessToken = ''EwB4A8l6'', refreshToken = None\<rparr>]\<rparr>"

definition example_user_unconnected :: IUser where
  "example_user_unconnected = \<lparr>user_id = ''65f0c0ffee000000000000aa'', connectedProviders = []\<rparr>"

definition example_request :: SendEmailRequest where
  "example_request =
     \<lparr>to = [''ann@example.com''], cc = None, bcc = None, subject = ''Hi'',
      body = ''Hello'', htmlBody = None, provider = gmail\<rparr>"


definition example_email :: email_doc where
  "example_email =
     \<lparr>e_id = ''65f0c0ffee00000000000001'', e_userId = ''65f0c0ffee000000000000aa'',
      e_messageId = Some ''18c0'', e_subject = ''Hi'', e_to = [''ann@example.com''],
      e_cc = [], e_bcc = [], e_body = ''Hello'', e_htmlBody = None,
      sendTimestamp = 1700000000000, e_status = sent, e_provider = gmail,
      e_trackingId = ''65f0c0ffee00000000000000'', e_error = None\<rparr>"

definition example_world_sent :: world where
  "example_world_sent = example_world\<lparr>emails := [example_email]\<rparr>"

definition example_hit :: tracking_request where
  "example_hit =
     \<lparr>p_trackingId = ''65f0c0ffee00000000000000'', p_url = ''https://example.com/page'',
      p_recipient = ''ann@example.com'', req_ip = Some ''203.0.113.7'',
      remoteAddress = Some ''::ffff:10.0.0.1'', userAgent = Some ''Mozilla/5.0'',
      referer = None, acceptLanguage = None\<rparr>"

definition example_hit_mapped :: tracking_request where
  "example_hit_mapped = example_hit\<lparr>req_ip := Some ''::ffff:203.0.113.7''\<rparr>"


definition example_env_3s :: env where
  "example_env_3s = example_env\<lparr>date_now := (\<lambda>k. 1700000003000 + int k)\<rparr>"

definition example_env_15s :: env where
  "example_env_15s = example_env\<lparr>date_now := (\<lambda>k. 1700000015000 + int k)\<rparr>"

definition example_env_empty_id :: env where
  "example_env_empty_id = example_env\<lparr>gmail_messages_send := (\<lambda>k raw. Inr [])\<rparr>"

definition example_error :: js_error where
  "example_error =
     \<lparr>code = Some 503, message = Some ''Service unavailable, refresh and retry later'',
      response_status = None\<rparr>"

definition example_env_refresh :: env where
  "example_env_refresh = example_env\<lparr>gmail_messages_send := (\<lambda>k raw. Inl example_error)\<rparr>"

section \<open>Lemmas\<close>

lemma Date_now_fields [simp]:
  "transport_calls (snd (Date_now e w)) = transport_calls w"
  "provider_requests (snd (Date_now e w)) = provider_requests w"
  "emails (snd (Date_now e w)) = emails w"
  "trackings (snd (Date_now e w)) = trackings w"
  by (simp_all add: Date_now_def)

lemma Math_random_fields [simp]:
  "transport_calls (snd (Math_random e w)) = transport_calls w"
  "provider_requests (snd (Math_random e w)) = provider_requests w"
  "emails (snd (Math_random e w)) = emails w"
  "trackings (snd (Math_random e w)) = trackings w"
  by (simp_all add: Math_random_def)

lemma ObjectId_fields [simp]:
  "transport_calls (snd (ObjectId e w)) = transport_calls w"
  "provider_requests (snd (ObjectId e w)) = provider_requests w"
  "emails (snd (ObjectId e w)) = emails w"
  "trackings (snd (ObjectId e w)) = trackings w"
  by (simp_all add: ObjectId_def)

lemma createGmailMessage_fields [simp]:
  "transport_calls (snd (createGmailMessage e d w)) = transport_calls w"
  "provider_requests (snd (createGmailMessage e d w)) = provider_requests w"
  "emails (snd (createGmailMessage e d w)) = emails w"
  "trackings (snd (createGmailMessage e d w)) = trackings w"
  by (simp_all add: createGmailMessage_def Let_def split_beta split: option.splits list.splits)

lemma sendGmailEmail_try_fields [simp]:
  "transport_calls (snd (sendGmailEmail_try e u d w)) = transport_calls w"
  "emails (snd (sendGmailEmail_try e u d w)) = emails w"
  "trackings (snd (sendGmailEmail_try e u d w)) = trackings w"
  by (simp_all add: sendGmailEmail_try_def Let_def split_beta split: option.splits)

lemma sendOutlookEmail_try_fields [simp]:
  "transport_calls (snd (sendOutlookEmail_try e u d w)) = transport_calls w"
  "provider_requests (snd (sendOutlookEmail_try e u d w)) = provider_requests w"
  "emails (snd (sendOutlookEmail_try e u d w)) = emails w"
  "trackings (snd (sendOutlookEmail_try e u d w)) = trackings w"
  by (simp_all add: sendOutlookEmail_try_def Let_def split_beta split: option.splits)

lemma sendGmailEmail_fields [simp]:
  "transport_calls (snd (sendGmailEmail e u d w)) = transport_calls w @ [(gmail, d)]"
  "emails (snd (sendGmailEmail e u d w)) = emails w"
  "trackings (snd (sendGmailEmail e u d w)) = trackings w"
  by (simp_all add: sendGmailEmail_def Let_def split_beta split: sum.splits)

lemma sendOutlookEmail_fields [simp]:
  "transport_calls (snd (sendOutlookEmail e u d w)) = transport_calls w @ [(outlook, d)]"
  "provider_requests (snd (sendOutlookEmail e u d w)) = provider_requests w"
  "emails (snd (sendOutlookEmail e u d w)) = emails w"
  "trackings (snd (sendOutlookEmail e u d w)) = trackings w"
  by (simp_all add: sendOutlookEmail_def Let_def split_beta split: sum.splits)

lemma send_one_fields [simp]:
  "transport_calls (snd (send_one e u d t r w)) =
     transport_calls w
     @ (case individualEmailData e d t r of Inl error \<Rightarrow> [] | Inr m \<Rightarrow> [(provider d, m)])"
  "emails (snd (send_one e u d t r w)) = emails w"
  "trackings (snd (send_one e u d t r w)) = trackings w"
  by (cases "provider d"; simp add: send_one_def split: sum.splits)+


lemma send_loop_stores:
  "emails (snd (snd (send_loop e u d t rs (n, ids, w)))) = emails w
   \<and> trackings (snd (snd (send_loop e u d t rs (n, ids, w)))) = trackings w"
proof (induction rs arbitrary: n ids w)
  case Nil
  then show ?case by simp
next
  case (Cons r rs)
  obtain x w' where s: "send_one e u d t r w = (x, w')" by (cases "send_one e u d t r w")
  have c: "emails w' = emails w" "trackings w' = trackings w"
    using send_one_fields(2,3) [of e u d t r w] s by simp_all
  show ?case using Cons.IH c s by (cases x) simp_all
qed

lemma send_loop_result:
  "fst (send_loop e u d t rs (n, ids, w)) = n + length (successes (transport_outcomes e u d t rs w))
   \<and> fst (snd (send_loop e u d t rs (n, ids, w))) = ids @ successes (transport_outcomes e u d t rs w)"
proof (induction rs arbitrary: n ids w)
  case Nil
  then show ?case by (simp add: successes_def)
next
  case (Cons r rs)
  obtain x w' where s: "send_one e u d t r w = (x, w')" by (cases "send_one e u d t r w")
  show ?case using Cons.IH s by (cases x) (simp_all add: successes_def)
qed

lemma show_digits_nonempty: "show_digits n \<noteq> []"
  by (subst show_digits.simps) simp

lemma show_int_nonempty: "show_int i \<noteq> []"
  by (simp add: show_int_def show_digits_nonempty)

lemma example_user_microsoft: "find (\<lambda>conn. conn_provider conn = microsoft) (connectedProviders example_user)
   = Some \<lparr>conn_provider = microsoft, providerId = ''m-1'', conn_email = ''me@outlook.com'',
          accessToken = ''EwB4A8l6'', refreshToken = None\<rparr>"
  by (simp add: example_user_def)

lemma createGmailMessage_history [simp]:
  "fst (createGmailMessage e d (w\<lparr>transport_calls := x\<rparr>)) = fst (createGmailMessage e d w)"
  by (simp add: createGmailMessage_def Date_now_def Math_random_def Let_def split_beta
           split: option.splits list.splits)

lemma new_EmailTracking_doc:
  "fst (new_EmailTracking e ev email req w) =
     \<lparr>t_trackingId = p_trackingId req, t_emailId = e_id email, t_eventType = ev,
      t_timestamp = date_now e (Suc (clock_reads w)), t_ipAddress = ipAddress req,
      t_userAgent = userAgent req,
      t_clickedUrl = (if ev = click_event then Some (p_url req) else None),
      t_recipientEmail = Some (p_recipient req),
      t_meta_timestamp = date_now e (clock_reads w),
      t_meta_referer = referer req, t_meta_acceptLanguage = acceptLanguage req\<rparr>"
  by (simp add: new_EmailTracking_def Date_now_def Let_def split_beta)

lemma new_EmailTracking_world:
  "snd (new_EmailTracking e ev email req w) = w\<lparr>clock_reads := Suc (Suc (clock_reads w))\<rparr>"
  by (simp add: new_EmailTracking_def Date_now_def Let_def split_beta)

lemma errors_world:
  "EmailTracking_errors e (fst (new_EmailTracking e ev email req w)) =
   EmailTracking_errors e (fst (new_EmailTracking e ev email req w'))"
  by (simp add: new_EmailTracking_doc EmailTracking_errors_def)

lemma cooldown_active:
  "fst (fst (checkTrackingCooldown e ts w)) =
     (date_now e (clock_reads w) - ts < TRACKING_COOLDOWN_SECONDS e * 1000)"
  by (simp add: checkTrackingCooldown_def Date_now_def Let_def split_beta)

lemma cooldown_world:
  "snd (checkTrackingCooldown e ts w) = w\<lparr>clock_reads := Suc (clock_reads w)\<rparr>"
  by (simp add: checkTrackingCooldown_def Date_now_def Let_def split_beta)

lemma get_pixel_within:
  assumes "Email_findOne (p_trackingId req) w = Some email" "p_trackingId req \<noteq> []"
    and "date_now e (clock_reads w) - sendTimestamp email < TRACKING_COOLDOWN_SECONDS e * 1000"
  shows "get_pixel e req w = (Image_png pixel, w\<lparr>clock_reads := Suc (clock_reads w)\<rparr>)"
  using assms by (simp add: get_pixel_def cooldown_active cooldown_world split_beta)

lemma get_pixel_after:
  assumes "Email_findOne (p_trackingId req) w = Some email" "p_trackingId req \<noteq> []"
    and "\<not> date_now e (clock_reads w) - sendTimestamp email < TRACKING_COOLDOWN_SECONDS e * 1000"
    and "EmailTracking_errors e (fst (new_EmailTracking e open_event email req w)) = []"
  shows "get_pixel e req w =
           (Image_png pixel,
            w\<lparr>clock_reads := clock_reads w + 3,
              trackings := trackings w
                @ [fst (new_EmailTracking e open_event email req
                         (w\<lparr>clock_reads := Suc (clock_reads w)\<rparr>))]\<rparr>)"
proof -
  have v: "EmailTracking_errors e (fst (new_EmailTracking e open_event email req
             (w\<lparr>clock_reads := Suc (clock_reads w)\<rparr>))) = []"
    using assms(4) errors_world by metis
  show ?thesis
    using assms(1-3) v
    by (simp add: get_pixel_def cooldown_active cooldown_world split_beta
          EmailTracking_save_def new_EmailTracking_world)
qed

lemma get_pixel_invalid:
  assumes "Email_findOne (p_trackingId req) w = Some email" "p_trackingId req \<noteq> []"
    and "\<not> date_now e (clock_reads w) - sendTimestamp email < TRACKING_COOLDOWN_SECONDS e * 1000"
    and "EmailTracking_errors e (fst (new_EmailTracking e open_event email req w)) \<noteq> []"
  shows "fst (get_pixel e req w) =
           error_handler (Error (validation_message ''EmailTracking''
             (EmailTracking_errors e (fst (new_EmailTracking e open_event email req w)))))
         \<and> trackings (snd (get_pixel e req w)) = trackings w"
proof -
  have v: "EmailTracking_errors e (fst (new_EmailTracking e open_event email req
             (w\<lparr>clock_reads := Suc (clock_reads w)\<rparr>)))
           = EmailTracking_errors e (fst (new_EmailTracking e open_event email req w))"
    using errors_world by metis
  show ?thesis
    using assms v
    by (simp add: get_pixel_def cooldown_active cooldown_world split_beta
          EmailTracking_save_def new_EmailTracking_world)
qed

lemma get_click_unknown:
  assumes "Email_findOne (p_trackingId req) w = None"
    and "p_trackingId req \<noteq> []" "p_url req \<noteq> []" "p_recipient req \<noteq> []"
  shows "get_click e req w = (Redirect (p_url req), w)"
  using assms by (simp add: get_click_def)

lemma get_pixel_unknown:
  assumes "Email_findOne (p_trackingId req) w = None" and "p_trackingId req \<noteq> []"
  shows "get_pixel e req w = (Image_png pixel, w)"
  using assms by (simp add: get_pixel_def)

lemma hex_digit_val_all: "list_all (\<lambda>n. hex_val (hex_digit n) = Some n) [0..<16]"
  by code_simp

lemma hex_digit_val: "n < 16 \<Longrightarrow> hex_val (hex_digit n) = Some n"
  using hex_digit_val_all by (simp add: list_all_iff)

lemma hex_digit_set: "n < 16 \<Longrightarrow> hex_digit n \<in> set ''0123456789ABCDEF''"
  unfolding hex_digit_def by (rule nth_mem) simp

lemma percent_reserved: "\<not> uri_unreserved CHR ''%''"
  by (simp add: uri_unreserved_def Let_def)

lemma unreserved_ascii: "uri_unreserved c \<Longrightarrow> (of_char c :: nat) < 0x80"
  by (auto simp: uri_unreserved_def Let_def)

lemma pct_tokens_pct_encode:
  "pct_tokens (pct_encode c @ rest) = map_option ((#) (True, c)) (pct_tokens rest)"
proof -
  have d: "(of_char c :: nat) div 16 < 16" 
    using nat_of_char_less_256 [of c] by (simp add: less_mult_imp_div_less)
  have m: "(of_char c :: nat) mod 16 < 16" by simp
  have "char_of (16 * ((of_char c :: nat) div 16) + (of_char c :: nat) mod 16) = c"
    by simp
  then show ?thesis
    by (simp add: pct_encode_def hex_digit_val [OF d] hex_digit_val [OF m])
qed

lemma pct_tokens_encode:
  "pct_tokens (percent_encode s) = Some (map (\<lambda>c. (\<not> uri_unreserved c, c)) s)"
proof (induction s)
  case Nil
  then show ?case by (simp add: percent_encode_def)
next
  case (Cons c s)
  have e: "percent_encode (c # s) =
            (if uri_unreserved c then [c] else pct_encode c) @ percent_encode s"
    by (simp add: percent_encode_def)
  show ?case
  proof (cases "uri_unreserved c")
    case True
    then have "c \<noteq> CHR ''%''" using percent_reserved by auto
    then show ?thesis using True Cons.IH e by simp
  next
    case False
    then show ?thesis using Cons.IH e by (simp add: pct_tokens_pct_encode)
  qed
qed

lemma percent_encode_inj: "percent_encode a = percent_encode b \<Longrightarrow> a = b"
proof -
  assume "percent_encode a = percent_encode b"
  then have "map (\<lambda>c. (\<not> uri_unreserved c, c)) a = map (\<lambda>c. (\<not> uri_unreserved c, c)) b"
    using pct_tokens_encode [of a] pct_tokens_encode [of b] by simp
  then have "map snd (map (\<lambda>c. (\<not> uri_unreserved c, c)) a)
           = map snd (map (\<lambda>c. (\<not> uri_unreserved c, c)) b)" by simp
  then show "a = b" by (simp add: comp_def)
qed

lemma encode_chars:
  "x \<in> set (percent_encode s) \<Longrightarrow> uri_unreserved x \<or> x = CHR ''%''"
proof (induction s)
  case Nil
  then show ?case by (simp add: percent_encode_def)
next
  case (Cons c s)
  have d: "(of_char c :: nat) div 16 < 16" 
    using nat_of_char_less_256 [of c] by (simp add: less_mult_imp_div_less)
  have m: "(of_char c :: nat) mod 16 < 16" by simp
  have h: "\<And>n. n < 16 \<Longrightarrow> uri_unreserved (hex_digit n)"
    using hex_digit_set by (fastforce simp: uri_unreserved_def Let_def)
  from Cons show ?case
    using h [OF d] h [OF m]
    by (auto simp: percent_encode_def pct_encode_def split: if_splits)
qed

lemma encode_no_delims:
  "CHR ''/'' \<notin> set (percent_encode s)" "CHR ''?'' \<notin> set (percent_encode s)"
  "CHR ''#'' \<notin> set (percent_encode s)"
  using encode_chars [of "CHR ''/''" s] encode_chars [of "CHR ''?''" s]
    encode_chars [of "CHR ''#''" s]
  by (auto simp: uri_unreserved_def Let_def)

lemma encode_nonempty: "s \<noteq> [] \<Longrightarrow> percent_encode s \<noteq> []"
  by (cases s) (auto simp: percent_encode_def pct_encode_def)

lemma seq_ok_tail: "utf8_seq_ok (b # xs) \<Longrightarrow> x \<in> set xs \<Longrightarrow> 0x80 \<le> x"
  by (cases "b # xs" rule: utf8_seq_ok.cases) (auto simp: utf8_cont_def)

lemma decode_tokens_seq:
  assumes "\<not> (of_char c :: nat) < 0x80" and "utf8_seq_len (of_char c) = Suc k"
    and "length (take k ts) = k" and "list_all fst (take k ts)"
    and "utf8_seq_ok (of_char c # map (\<lambda>t. of_char (snd t)) (take k ts))"
  shows "decode_tokens ((True, c) # ts) =
           map_option ((@) (c # map snd (take k ts))) (decode_tokens (drop k ts))"
  using assms by (simp add: Let_def)

lemma decode_tokens_encode:
  "well_formed s \<Longrightarrow> decode_tokens (map (\<lambda>c. (\<not> uri_unreserved c, c)) s) = Some s"
proof (induction "length s" arbitrary: s rule: less_induct)
  case less
  let ?f = "\<lambda>c. (\<not> uri_unreserved c, c)"
  show ?case
  proof (cases s)
    case Nil
    then show ?thesis by simp
  next
    case (Cons c cs)
    show ?thesis
    proof (cases "(of_char c :: nat) < 0x80")
      case True
      then have "well_formed cs" using less.prems Cons by (simp add: well_formed_def)
      then have "decode_tokens (map ?f cs) = Some cs" using less.hyps Cons by simp
      then show ?thesis using True Cons by simp
    next
      case False
      let ?n = "utf8_seq_len (of_char c)"
      have v: "?n \<noteq> 0" "?n - 1 \<le> length cs"
        "utf8_seq_ok (of_char c # take (?n - 1) (map of_char cs))"
        "utf8_valid (drop (?n - 1) (map of_char cs))"
        using less.prems Cons False by (simp_all add: well_formed_def)
      have esc: "\<not> uri_unreserved c" using False unreserved_ascii by blast
      have tl_esc: "list_all fst (take (?n - 1) (map ?f cs))"
      proof -
        have "\<And>x. x \<in> set (take (?n - 1) cs) \<Longrightarrow> \<not> uri_unreserved x"
        proof -
          fix x assume "x \<in> set (take (?n - 1) cs)"
          then have "of_char x \<in> set (take (?n - 1) (map of_char cs))"
            by (simp add: take_map)
          then have "(0x80 :: nat) \<le> of_char x" using seq_ok_tail [OF v(3)] by blast
          then show "\<not> uri_unreserved x" using unreserved_ascii [of x] by auto
        qed
        then show ?thesis by (simp add: take_map list_all_iff)
      qed
      have wf: "well_formed (drop (?n - 1) cs)"
        using v(4) by (simp add: well_formed_def drop_map)
      have "length (drop (?n - 1) cs) < length s" using Cons by simp
      then have ih: "decode_tokens (map ?f (drop (?n - 1) cs)) = Some (drop (?n - 1) cs)"
        using less.hyps wf by blast
      have oct: "map (\<lambda>t. (of_char (snd t) :: nat)) (take (?n - 1) (map ?f cs))
                 = take (?n - 1) (map of_char cs)"
        by (simp add: take_map comp_def)
      have sn: "map snd (take (?n - 1) (map ?f cs)) = take (?n - 1) cs"
        by (simp add: take_map comp_def)
      have len: "length (take (?n - 1) (map ?f cs)) = ?n - 1" using v(2) by simp
      have n: "?n = Suc (?n - 1)" using v(1) by simp
      have ok: "utf8_seq_ok (of_char c # map (\<lambda>t. of_char (snd t)) (take (?n - 1) (map ?f cs)))"
        using v(3) oct by simp
      have "decode_tokens ((True, c) # map ?f cs) =
              map_option ((@) (c # map snd (take (?n - 1) (map ?f cs))))
                (decode_tokens (drop (?n - 1) (map ?f cs)))"
        using decode_tokens_seq [OF False n len tl_esc ok] .
      also have "\<dots> = Some ((c # take (?n - 1) cs) @ drop (?n - 1) cs)"
        using ih sn by (simp add: drop_map)
      finally have "decode_tokens ((True, c) # map ?f cs) = Some (c # cs)" by simp
      then show ?thesis using esc Cons by simp
    qed
  qed
qed

lemma decode_encode:
  "well_formed s \<Longrightarrow> decodeURIComponent (percent_encode s) = Some s"
  by (simp add: decodeURIComponent_def pct_tokens_encode decode_tokens_encode)

lemma pct_tokens_plain:
  "CHR ''%'' \<notin> set s \<Longrightarrow> pct_tokens s = Some (map (\<lambda>c. (False, c)) s)"
  by (induction s) auto

lemma decode_tokens_plain: "decode_tokens (map (\<lambda>c. (False, c)) s) = Some s"
  by (induction s) auto

lemma decode_plain: "CHR ''%'' \<notin> set s \<Longrightarrow> decodeURIComponent s = Some s"
  by (simp add: decodeURIComponent_def pct_tokens_plain decode_tokens_plain)

lemma split_slash_nonempty: "split_slash s \<noteq> []"
  by (induction s) (auto split: list.splits)

lemma split_slash_segment:
  "CHR ''/'' \<notin> set seg \<Longrightarrow> split_slash (seg @ CHR ''/'' # rest) = seg # split_slash rest"
  by (induction seg) auto

lemma split_slash_last: "CHR ''/'' \<notin> set seg \<Longrightarrow> split_slash seg = [seg]"
  by (induction seg) auto

lemma after_scheme_append:
  "after_scheme a = Some r \<Longrightarrow> after_scheme (a @ q) = Some (r @ q)"
proof (induction a rule: after_scheme.induct)
  case (1 a b c r')
  then show ?case by (auto split: if_splits)
qed simp_all

lemma request_target_append:
  assumes "request_target app = Some []"
  shows "request_target (app @ CHR ''/'' # p) = Some (CHR ''/'' # p)"
proof -
  obtain auth where a: "after_scheme app = Some auth"
    and d: "dropWhile (\<lambda>c. c \<noteq> CHR ''/'' \<and> c \<noteq> CHR ''?'' \<and> c \<noteq> CHR ''#'') auth = []"
    using assms by (auto simp: request_target_def)
  have all: "\<forall>x \<in> set auth. x \<noteq> CHR ''/'' \<and> x \<noteq> CHR ''?'' \<and> x \<noteq> CHR ''#''"
    using d by (simp add: dropWhile_eq_Nil_conv)
  have "after_scheme (app @ CHR ''/'' # p) = Some (auth @ CHR ''/'' # p)"
    using after_scheme_append [OF a] by simp
  moreover have "dropWhile (\<lambda>c. c \<noteq> CHR ''/'' \<and> c \<noteq> CHR ''?'' \<and> c \<noteq> CHR ''#'')
                   (auth @ CHR ''/'' # p) = CHR ''/'' # p"
    using all by (simp add: dropWhile_append3 dropWhile_append)
  ultimately show ?thesis by (simp add: request_target_def)
qed

lemma request_path_plain:
  "CHR ''?'' \<notin> set p \<Longrightarrow> CHR ''#'' \<notin> set p \<Longrightarrow> request_path p = p"
  by (auto simp: request_path_def takeWhile_eq_all_conv)

lemma pct_tokens_nonempty: "pct_tokens s = Some ts \<Longrightarrow> s \<noteq> [] \<Longrightarrow> ts \<noteq> []"
  by (cases s) (auto split: if_splits list.splits option.splits)

lemma decode_tokens_nonempty: "decode_tokens ts = Some d \<Longrightarrow> ts \<noteq> [] \<Longrightarrow> d \<noteq> []"
  by (cases ts) (auto simp: Let_def split: if_splits)

lemma decode_nonempty: "decodeURIComponent s = Some d \<Longrightarrow> s \<noteq> [] \<Longrightarrow> d \<noteq> []"
  by (auto simp: decodeURIComponent_def split: option.splits
           dest: pct_tokens_nonempty decode_tokens_nonempty)

lemma matched_pixel_params:
  "match_pixel_route target = Matched (t, r) \<Longrightarrow> t \<noteq> [] \<and> r \<noteq> []"
  by (auto simp: match_pixel_route_def split: option.splits list.splits if_splits
           dest: decode_nonempty)

lemma matched_click_params:
  "match_click_route target = Matched (t, u, r) \<Longrightarrow> t \<noteq> [] \<and> u \<noteq> [] \<and> r \<noteq> []"
  by (auto simp: match_click_route_def split: option.splits list.splits if_splits
           dest: decode_nonempty)

lemma last_slash_cancel:
  assumes "CHR ''/'' \<notin> set u" "CHR ''/'' \<notin> set v" "x @ CHR ''/'' # u = y @ CHR ''/'' # v"
  shows "u = v"
proof -
  have "rev u @ CHR ''/'' # rev x = rev v @ CHR ''/'' # rev y"
    using assms(3) by (metis rev.simps(2) rev_append append_assoc append_Cons append_Nil)
  then have "takeWhile (\<lambda>c. c \<noteq> CHR ''/'') (rev u @ CHR ''/'' # rev x)
           = takeWhile (\<lambda>c. c \<noteq> CHR ''/'') (rev v @ CHR ''/'' # rev y)" by simp
  moreover have "takeWhile (\<lambda>c. c \<noteq> CHR ''/'') (rev u @ CHR ''/'' # rev x) = rev u"
    using assms(1) by (auto simp: takeWhile_tail takeWhile_eq_all_conv)
  moreover have "takeWhile (\<lambda>c. c \<noteq> CHR ''/'') (rev v @ CHR ''/'' # rev y) = rev v"
    using assms(2) by (auto simp: takeWhile_tail takeWhile_eq_all_conv)
  ultimately show ?thesis by simp
qed

lemma split_pixel:
  assumes "CHR ''/'' \<notin> set a" "CHR ''/'' \<notin> set b"
  shows "split_slash (''/api/tracking/pixel/'' @ a @ ''/'' @ b)
         = [[], ''api'', ''tracking'', ''pixel'', a, b]"
  using assms by (simp add: split_slash_segment split_slash_last)

lemma split_click:
  assumes "CHR ''/'' \<notin> set a" "CHR ''/'' \<notin> set b" "CHR ''/'' \<notin> set c"
  shows "split_slash (''/api/tracking/click/'' @ a @ ''/'' @ b @ ''/'' @ c)
         = [[], ''api'', ''tracking'', ''click'', a, b, c]"
  using assms by (simp add: split_slash_segment split_slash_last)

lemma sendEmailWithTracking_stores:
  "emails (snd (sendEmailWithTracking e u d t w)) = emails w
   \<and> trackings (snd (sendEmailWithTracking e u d t w)) = trackings w"
proof -
  obtain n ids w1 where l: "send_loop e u d t (allRecipients d) (0, [], w) = (n, ids, w1)"
    by (metis prod_cases3)
  have "emails w1 = emails w \<and> trackings w1 = trackings w"
    using send_loop_stores [of e u d t "allRecipients d" 0 "[]" w] l by simp
  then show ?thesis
    using l by (simp add: sendEmailWithTracking_def split_beta split: list.splits)
qed

lemma sendEmailWithTracking_result:
  "\<exists>res. fst (sendEmailWithTracking e user d t w) = Inr res
     \<and> messageId res \<noteq> []
     \<and> sentCount res = length (successes (transport_outcomes e user d t (allRecipients d) w))
     \<and> (case successes (transport_outcomes e user d t (allRecipients d) w) of
           (c # cs) # rest \<Rightarrow> messageId res = c # cs
         | _ \<Rightarrow> \<exists>now. messageId res = ''bulk_send_'' @ show_int now)"
proof -
  let ?ids = "successes (transport_outcomes e user d t (allRecipients d) w)"
  obtain n ids w1 where l: "send_loop e user d t (allRecipients d) (0, [], w) = (n, ids, w1)"
    by (metis prod_cases3)
  have r: "n = length ?ids" "ids = ?ids"
    using send_loop_result [of e user d t "allRecipients d" 0 "[]" w] l by simp_all
  show ?thesis
  proof (cases "\<exists>c cs rest. ids = (c # cs) # rest")
    case True
    then obtain c cs rest where i: "ids = (c # cs) # rest" by blast
    have f: "fst (sendEmailWithTracking e user d t w) = Inr \<lparr>messageId = c # cs, sentCount = n\<rparr>"
      using l i by (simp add: sendEmailWithTracking_def)
    have s: "?ids = (c # cs) # rest" using r(2) i by simp
    show ?thesis
      by (rule exI [of _ "\<lparr>messageId = c # cs, sentCount = n\<rparr>"]) (simp add: f s r(1))
  next
    case False
    let ?now = "date_now e (clock_reads w1)"
    have f: "fst (sendEmailWithTracking e user d t w)
             = Inr \<lparr>messageId = ''bulk_send_'' @ show_int ?now, sentCount = n\<rparr>"
      using l False by (auto simp: sendEmailWithTracking_def Date_now_def split: list.splits)
    have c: "(case ?ids of (c # cs) # rest \<Rightarrow> P c cs | _ \<Rightarrow> Q) = Q" for P Q
      using False r(2) by (auto split: list.splits)
    show ?thesis
      by (rule exI [of _ "\<lparr>messageId = ''bulk_send_'' @ show_int ?now, sentCount = n\<rparr>"])
         (auto simp: f c r(1))
  qed
qed

lemma post_send_error:
  "emails (snd (post_send e user req w)) = emails w
   \<or> (\<exists>doc. emails (snd (post_send e user req w)) = emails w @ [doc] \<and> e_error doc = None)"
proof -
  let ?tid = "fst (ObjectId e w)" and ?w1 = "snd (ObjectId e w)"
  let ?d = "req\<lparr>cc := Some (case cc req of None \<Rightarrow> [] | Some c \<Rightarrow> c),
                  bcc := Some (case bcc req of None \<Rightarrow> [] | Some b \<Rightarrow> b)\<rparr>"
  obtain res where r: "fst (sendEmailWithTracking e user ?d ?tid ?w1) = Inr res"
    using sendEmailWithTracking_result by blast
  have s: "emails (snd (sendEmailWithTracking e user ?d ?tid ?w1)) = emails w"
    using sendEmailWithTracking_stores [of e user ?d ?tid ?w1] by simp
  show ?thesis
    using r s
    by (simp add: post_send_def Let_def split_beta Email_save_def Email_pre_save_def)
qed



lemma trackingPixelUrl_Some:
  "(trackingPixelUrl e t r = Some x) =
     (well_formed r \<and> x = APP_URL e @ ''/api/tracking/pixel/'' @ t @ ''/'' @ percent_encode r)"
  by (auto simp: trackingPixelUrl_def encodeURIComponent_def)

lemma trackingUrl_Some:
  "(trackingUrl e t r u = Some x) =
     (well_formed u \<and> well_formed r
      \<and> x = APP_URL e @ ''/api/tracking/click/'' @ t @ ''/'' @ percent_encode u @ ''/''
             @ percent_encode r)"
  by (auto simp: trackingUrl_def encodeURIComponent_def)




section \<open>The claims\<close>

subsection \<open>C1\<close>

text \<open>
  Claim C1: when the send fails for every recipient, the outcome has \<open>sentCount = 0\<close> and
  status \<open>failed\<close>, and the error stored with the message is the failure message of the first
  recipient. The first two hold; the third does not. For a user with no Google account
  connected and one recipient, the transport fails with
  \<open>Failed to send Gmail email: No Google account connected\<close>, the response is the generic
  \<open>Failed to send email\<close> with status 500, and the stored message has status \<open>failed\<close> and
  no error at all.
\<close>

theorem all_failed_dispatch_persists_no_error:
  "transport_outcomes example_env example_user_unconnected
       (example_request\<lparr>cc := Some [], bcc := Some []\<rparr>) ''65f0c0ffee00000000000000''
       [''ann@example.com''] (example_world\<lparr>ids_minted := 1\<rparr>)
     = [Inl (Error ''Failed to send Gmail email: No Google account connected'')]
   \<and> fst (post_send example_env example_user_unconnected example_request example_world)
     = Json \<lparr>status = 500, success = False, error_text = Some ''Failed to send email'',
             message_text = None,
             data = Some (''65f0c0ffee00000000000001'', ''65f0c0ffee00000000000000'', 0)\<rparr>
   \<and> map (\<lambda>d. (e_trackingId d, e_status d, e_error d))
         (emails (snd (post_send example_env example_user_unconnected example_request example_world)))
     = [(''65f0c0ffee00000000000000'', failed, None)]"
  by code_simp

subsection \<open>C2\<close>

text \<open>
  Claim C2: \<open>sendOutlookEmail\<close> builds the message object and submits it to the send-mail API
  of the provider, and does not succeed without a submission. For a user with a Microsoft
  account connected, and every message, environment and state, it succeeds and the list
  of the requests submitted to a provider is what it was: nothing is submitted.
\<close>

theorem sendOutlookEmail_submits_nothing:
  "(\<exists>mid. fst (sendOutlookEmail e example_user emailData w) = Inr mid)
   \<and> provider_requests (snd (sendOutlookEmail e example_user emailData w)) = provider_requests w"
  by (simp add: sendOutlookEmail_def sendOutlookEmail_try_def example_user_microsoft Let_def split_beta)

subsection \<open>C3\<close>

text \<open>
  Claim C3: an open hit or a click hit that arrives before the cooldown window has elapsed
  writes no event, and the click is redirected all the same. The handler of the open beacon
  checks the window (see C4); the handler of the click does not. A click 3 seconds after
  the send, with the window of 10 seconds active, is redirected and writes a click event.
\<close>

theorem click_within_cooldown_is_recorded:
  "fst (fst (checkTrackingCooldown example_env_3s (sendTimestamp example_email) example_world_sent))
   \<and> fst (get_click example_env_3s example_hit example_world_sent)
       = Redirect ''https://example.com/page''
   \<and> map (\<lambda>d. (t_eventType d, t_clickedUrl d, t_recipientEmail d))
         (trackings (snd (get_click example_env_3s example_hit example_world_sent)))
       = [(click_event, Some ''https://example.com/page'', Some ''ann@example.com'')]"
  by code_simp

subsection \<open>C4\<close>

text \<open>
  Claim C4: for an open beacon hit on a known \<open>trackingId\<close>, a hit inside the cooldown window
  writes no event and is answered with the pixel, a hit after the window writes exactly one
  \<open>open\<close> event, and so does each repetition of it. The handler does not catch what \<open>save\<close>
  throws. 15 seconds after the send, with a window of 10 seconds, the hit of a client whose
  address is the IPv4-mapped \<open>::ffff:203.0.113.7\<close> fails the validator of \<open>ipAddress\<close>: no
  event is written and the answer is an error with status 500, not the pixel. The same hit
  from \<open>203.0.113.7\<close> is answered with the pixel and writes one \<open>open\<close> event.
\<close>

theorem open_beacon_mapped_address_fails:
  "Email_findOne (p_trackingId example_hit_mapped) example_world_sent = Some example_email
   \<and> \<not> fst (fst (checkTrackingCooldown example_env_15s (sendTimestamp example_email)
                    example_world_sent))
   \<and> fst (get_pixel example_env_15s example_hit_mapped example_world_sent)
       = Json \<lparr>status = 500, success = False,
               error_text =
                 Some ''EmailTracking validation failed: ipAddress: Invalid IP address format'',
               message_text = None, data = None\<rparr>
   \<and> trackings (snd (get_pixel example_env_15s example_hit_mapped example_world_sent)) = []
   \<and> fst (get_pixel example_env_15s example_hit example_world_sent) = Image_png pixel
   \<and> map (\<lambda>d. (t_eventType d, t_recipientEmail d))
         (trackings (snd (get_pixel example_env_15s example_hit example_world_sent)))
       = [(open_event, Some ''ann@example.com'')]"
proof -
  have a: "Email_findOne (p_trackingId example_hit_mapped) example_world_sent = Some example_email
     \<and> \<not> fst (fst (checkTrackingCooldown example_env_15s (sendTimestamp example_email)
                      example_world_sent))"
    by code_simp
  have b: "(case get_pixel example_env_15s example_hit_mapped example_world_sent of
              (r, w) \<Rightarrow>
                r = Json \<lparr>status = 500, success = False,
                          error_text =
                            Some ''EmailTracking validation failed: ipAddress: Invalid IP address format'',
                          message_text = None, data = None\<rparr>
                \<and> trackings w = [])"
    by code_simp
  have c: "(case get_pixel example_env_15s example_hit example_world_sent of
              (r, w) \<Rightarrow>
                r = Image_png pixel
                \<and> map (\<lambda>d. (t_eventType d, t_recipientEmail d)) (trackings w)
                    = [(open_event, Some ''ann@example.com'')])"
    by code_simp
  show ?thesis using a b c by (simp add: split_beta)
qed

subsection \<open>C5\<close>

text \<open>
  Claim C5: when the \<open>trackingId\<close> of a request routed to the open beacon or to the click
  handler matches no stored message, the beacon answers with the pixel, the click is
  redirected to the decoded \<open>:url\<close> parameter, and the state is unchanged: no event is written.
\<close>

theorem unknown_trackingId_degrades:
  "(match_pixel_route target = Matched (t, r) \<and> Email_findOne t w = None
      \<longrightarrow> get_pixel e (req\<lparr>p_trackingId := t, p_recipient := r\<rparr>) w = (Image_png pixel, w))
   \<and> (match_click_route target' = Matched (t', u, r') \<and> Email_findOne t' w' = None
      \<longrightarrow> get_click e' (req'\<lparr>p_trackingId := t', p_url := u, p_recipient := r'\<rparr>) w'
            = (Redirect u, w'))"
  using matched_pixel_params [of target t r] matched_click_params [of target' t' u r']
  by (simp add: get_pixel_unknown get_click_unknown)

text \<open>Witness for C5: the two tracking URLs of a message that is not in the collection.\<close>

theorem unknown_trackingId_degrades_witness:
  "get_pixel example_env example_hit example_world = (Image_png pixel, example_world)
   \<and> get_click example_env example_hit example_world
       = (Redirect ''https://example.com/page'', example_world)"
proof -
  have mp: "match_pixel_route
              ''/api/tracking/pixel/65f0c0ffee00000000000000/ann%40example.com''
            = Matched (''65f0c0ffee00000000000000'', ''ann@example.com'')"
    by code_simp
  have mc: "match_click_route
              ''/api/tracking/click/65f0c0ffee00000000000000/https%3A%2F%2Fexample.com%2Fpage/ann%40example.com''
            = Matched (''65f0c0ffee00000000000000'', ''https://example.com/page'',
                       ''ann@example.com'')"
    by code_simp
  have unknown: "Email_findOne ''65f0c0ffee00000000000000'' example_world = None"
    by code_simp
  have r: "example_hit\<lparr>p_trackingId := ''65f0c0ffee00000000000000'',
                        p_recipient := ''ann@example.com''\<rparr> = example_hit"
    "example_hit\<lparr>p_trackingId := ''65f0c0ffee00000000000000'',
                  p_url := ''https://example.com/page'',
                  p_recipient := ''ann@example.com''\<rparr> = example_hit"
    by (simp_all add: example_hit_def)
  show ?thesis
    using unknown_trackingId_degrades [of "''/api/tracking/pixel/65f0c0ffee00000000000000/ann%40example.com''"
                 "''65f0c0ffee00000000000000''" "''ann@example.com''" example_world
                 example_env example_hit
                 "''/api/tracking/click/65f0c0ffee00000000000000/https%3A%2F%2Fexample.com%2Fpage/ann%40example.com''"
                 "''65f0c0ffee00000000000000''" "''https://example.com/page''"
                 "''ann@example.com''" example_world example_env example_hit]
      mp mc unknown
    by (simp add: r)
qed

subsection \<open>C6\<close>

text \<open>
  Claim C6: for two distinct recipients of a dispatch, with the same \<open>trackingId\<close> and the same
  source message, the rewritten contents differ: whenever the rewriting produces a content
  for each of them, the HTML bodies differ, by the recipient embedded in the pixel URL.
\<close>

theorem recipient_content_distinct:
  assumes "a \<noteq> b"
    and "processEmailWithRecipientTracking e emailData trackingId a = Inr ca"
    and "processEmailWithRecipientTracking e emailData trackingId b = Inr cb"
  shows "snd ca \<noteq> snd cb"
proof
  let ?x = "\<lambda>p. html_head @ p @ html_mid @ APP_URL e @ ''/api/tracking/pixel'' @ CHR ''/'' # trackingId"
  obtain pa where a: "snd ca = (?x pa @ CHR ''/'' # percent_encode a) @ html_tail"
    using assms(2)
    by (auto simp: processEmailWithRecipientTracking_def trackingPixelUrl_Some
             split: option.splits)
  obtain pb where b: "snd cb = (?x pb @ CHR ''/'' # percent_encode b) @ html_tail"
    using assms(3)
    by (auto simp: processEmailWithRecipientTracking_def trackingPixelUrl_Some
             split: option.splits)
  assume "snd ca = snd cb"
  then have "?x pa @ CHR ''/'' # percent_encode a = ?x pb @ CHR ''/'' # percent_encode b"
    using a b by (simp only: append_same_eq)
  then have "percent_encode a = percent_encode b"
    using last_slash_cancel encode_no_delims(1) by blast
  then show False using assms(1) percent_encode_inj by blast
qed

text \<open>Witness for C6.\<close>

theorem recipient_content_distinct_witness:
  "''ann@example.com'' \<noteq> ''bob@example.com''
   \<and> \<not> isl (processEmailWithRecipientTracking example_env example_request
              ''65f0c0ffee00000000000000'' ''ann@example.com'')
   \<and> \<not> isl (processEmailWithRecipientTracking example_env example_request
              ''65f0c0ffee00000000000000'' ''bob@example.com'')
   \<and> snd (projr (processEmailWithRecipientTracking example_env example_request
                   ''65f0c0ffee00000000000000'' ''ann@example.com''))
     \<noteq> snd (projr (processEmailWithRecipientTracking example_env example_request
                   ''65f0c0ffee00000000000000'' ''bob@example.com''))"
proof -
  let ?pa = "processEmailWithRecipientTracking example_env example_request
               ''65f0c0ffee00000000000000'' ''ann@example.com''"
  let ?pb = "processEmailWithRecipientTracking example_env example_request
               ''65f0c0ffee00000000000000'' ''bob@example.com''"
  have d: "''ann@example.com'' \<noteq> ''bob@example.com''" by simp
  have na: "\<not> isl ?pa" by code_simp
  have nb: "\<not> isl ?pb" by code_simp
  have pa: "?pa = Inr (projr ?pa)" using na by simp
  have pb: "?pb = Inr (projr ?pb)" using nb by simp
  show ?thesis
    using d na nb recipient_content_distinct [OF d pa pb] by simp
qed

subsection \<open>C7\<close>

text \<open>
  Claim C7, amended: when \<open>APP_URL\<close> is a bare origin, the \<open>trackingId\<close> is not empty and has
  none of the characters \<open>/ ? # %\<close> (the \<open>trackingId\<close> is put in the path as it is), and the
  recipient and the destination URL are non-empty well-formed strings, whatever reserved
  characters they hold, both URLs are built, the route of the pixel URL decodes to
  \<open>(trackingId, recipient)\<close> and the route of the click URL to \<open>(trackingId, url, recipient)\<close>.
\<close>

theorem tracking_url_round_trip:
  assumes origin: "request_target (APP_URL e) = Some []"
    and tid: "trackingId \<noteq> []" "\<forall>c \<in> set trackingId. c \<notin> set ''/?#%''"
    and email: "recipientEmail \<noteq> []" "well_formed recipientEmail"
    and url: "url \<noteq> []" "well_formed url"
  shows "map_option match_pixel_route
           (Option.bind (trackingPixelUrl e trackingId recipientEmail) request_target)
           = Some (Matched (trackingId, recipientEmail))
       \<and> map_option match_click_route
           (Option.bind (trackingUrl e trackingId recipientEmail url) request_target)
           = Some (Matched (trackingId, url, recipientEmail))"
proof -
  let ?er = "percent_encode recipientEmail" and ?eu = "percent_encode url"
  have t: "CHR ''/'' \<notin> set trackingId" "CHR ''?'' \<notin> set trackingId"
    "CHR ''#'' \<notin> set trackingId" "CHR ''%'' \<notin> set trackingId"
    using tid(2) by auto
  have ne: "?er \<noteq> []" "?eu \<noteq> []" using email(1) url(1) encode_nonempty by auto
  have dt: "decodeURIComponent trackingId = Some trackingId" using t(4) decode_plain by blast
  have dr: "decodeURIComponent ?er = Some recipientEmail" using email(2) decode_encode by blast
  have du: "decodeURIComponent ?eu = Some url" using url(2) decode_encode by blast
  let ?p = "''/api/tracking/pixel/'' @ trackingId @ ''/'' @ ?er"
  let ?c = "''/api/tracking/click/'' @ trackingId @ ''/'' @ ?eu @ ''/'' @ ?er"
  have bp: "trackingPixelUrl e trackingId recipientEmail = Some (APP_URL e @ ?p)"
    using email(2) by (simp add: trackingPixelUrl_Some)
  have bc: "trackingUrl e trackingId recipientEmail url = Some (APP_URL e @ ?c)"
    using email(2) url(2) by (simp add: trackingUrl_Some)
  have tp: "request_target (APP_URL e @ ?p) = Some ?p"
    using request_target_append [OF origin, of "''api/tracking/pixel/'' @ trackingId @ ''/'' @ ?er"]
    by simp
  have tc: "request_target (APP_URL e @ ?c) = Some ?c"
    using request_target_append [OF origin,
        of "''api/tracking/click/'' @ trackingId @ ''/'' @ ?eu @ ''/'' @ ?er"]
    by simp
  have pp: "request_path ?p = ?p"
    by (rule request_path_plain) (use t encode_no_delims [of recipientEmail] in auto)
  have pc: "request_path ?c = ?c"
    by (rule request_path_plain)
       (use t encode_no_delims [of recipientEmail] encode_no_delims [of url] in auto)
  have sp: "split_slash ?p = [[], ''api'', ''tracking'', ''pixel'', trackingId, ?er]"
    using split_pixel [OF t(1) encode_no_delims(1)] .
  have sc: "split_slash ?c = [[], ''api'', ''tracking'', ''click'', trackingId, ?eu, ?er]"
    using split_click [OF t(1) encode_no_delims(1) encode_no_delims(1)] .
  have rp: "route_segments ?p = Some [''pixel'', trackingId, ?er]"
    using ne by (simp add: route_segments_def pp sp lower_ascii_def del: append.simps append_Cons)
  have rc: "route_segments ?c = Some [''click'', trackingId, ?eu, ?er]"
    using ne by (simp add: route_segments_def pc sc lower_ascii_def del: append.simps append_Cons)
  have "match_pixel_route ?p = Matched (trackingId, recipientEmail)"
    using ne tid(1) by (simp add: match_pixel_route_def rp lower_ascii_def dt dr del: append.simps append_Cons)
  moreover have "match_click_route ?c = Matched (trackingId, url, recipientEmail)"
    using ne tid(1) by (simp add: match_click_route_def rc lower_ascii_def dt dr du del: append.simps append_Cons)
  ultimately show ?thesis by (simp only: bp bc tp tc Option.bind.simps option.map)
qed

text \<open>Witness for C7: a recipient with \<open>@\<close>, a destination with \<open>/\<close>, \<open>?\<close> and \<open>&\<close>.\<close>

theorem tracking_url_round_trip_witness:
  "map_option match_pixel_route
       (Option.bind (trackingPixelUrl example_env ''65f0c0ffee00000000000000''
                       ''ann@example.com'') request_target)
     = Some (Matched (''65f0c0ffee00000000000000'', ''ann@example.com''))
   \<and> map_option match_click_route
       (Option.bind (trackingUrl example_env ''65f0c0ffee00000000000000''
                       ''ann@example.com'' ''https://example.com/a/b?x=1&y=2'') request_target)
     = Some (Matched (''65f0c0ffee00000000000000'', ''https://example.com/a/b?x=1&y=2'',
                      ''ann@example.com''))"
proof -
  have origin: "request_target (APP_URL example_env) = Some []" by code_simp
  have t1: "''65f0c0ffee00000000000000'' \<noteq> []" by simp
  have t2: "\<forall>c \<in> set ''65f0c0ffee00000000000000''. c \<notin> set ''/?#%''" by simp
  have e1: "''ann@example.com'' \<noteq> []" by simp
  have e2: "well_formed ''ann@example.com''" by code_simp
  have u1: "''https://example.com/a/b?x=1&y=2'' \<noteq> []" by simp
  have u2: "well_formed ''https://example.com/a/b?x=1&y=2''" by code_simp
  show ?thesis using tracking_url_round_trip [OF origin t1 t2 e1 e2 u1 u2] .
qed

text \<open>
  Counterexample to C7 as stated: with the \<open>trackingId\<close> \<open>a/b\<close> the built URLs have one
  segment too many, and neither route matches.
\<close>

theorem tracking_url_slash_id_counterexample:
  "map_option match_pixel_route
       (Option.bind (trackingPixelUrl example_env ''a/b'' ''ann@example.com'') request_target)
     = Some NotFound
   \<and> map_option match_click_route
       (Option.bind (trackingUrl example_env ''a/b'' ''ann@example.com''
                       ''https://example.com/page'') request_target)
     = Some NotFound"
  by code_simp

subsection \<open>C8\<close>

text \<open>
  Claim C8, amended: when the submission to Gmail fails with an error that has a message,
  \<open>sendGmailEmail\<close> fails with the authentication-expired error exactly when the code of the
  error is 401 or its message contains \<open>invalid_grant\<close>, \<open>access_token\<close> or \<open>refresh\<close>, and
  otherwise with \<open>Failed to send Gmail email:\<close> followed by the message.
\<close>

theorem sendGmailEmail_failure_classes:
  assumes "find (\<lambda>conn. conn_provider conn = google) (connectedProviders user) = Some c"
    and "accessToken c \<noteq> []"
    and "gmail_messages_send e (length (provider_requests w)) (fst (createGmailMessage e emailData w)) = Inl err"
    and "message err = Some m"
  shows "fst (sendGmailEmail e user emailData w) =
           Inl (if code err = Some 401 \<or> str_includes m ''invalid_grant''
                   \<or> str_includes m ''access_token'' \<or> str_includes m ''refresh''
                then Error gmail_auth_expired
                else Error (''Failed to send Gmail email: '' @ (if m = [] then ''Unknown error'' else m)))"
  using assms
  by (simp add: sendGmailEmail_def sendGmailEmail_try_def sendGmailEmail_catch_def Let_def split_beta)

text \<open>Witness for C8.\<close>

theorem sendGmailEmail_failure_classes_witness:
  "fst (sendGmailEmail example_env_refresh example_user example_request example_world)
     = Inl (Error gmail_auth_expired)"
proof -
  have c: "find (\<lambda>conn. conn_provider conn = google) (connectedProviders example_user)
             = Some \<lparr>conn_provider = google, providerId = ''g-1'', conn_email = ''me@gmail.com'',
                     accessToken = ''ya29.a0'', refreshToken = Some ''1//0g''\<rparr>"
    by (simp add: example_user_def)
  have t: "accessToken \<lparr>conn_provider = google, providerId = ''g-1'', conn_email = ''me@gmail.com'',
                     accessToken = ''ya29.a0'', refreshToken = Some ''1//0g''\<rparr> \<noteq> []"
    by simp
  have o: "gmail_messages_send example_env_refresh (length (provider_requests example_world))
             (fst (createGmailMessage example_env_refresh example_request example_world))
           = Inl example_error"
    by (simp add: example_env_refresh_def)
  have m: "message example_error = Some ''Service unavailable, refresh and retry later''"
    by (simp add: example_error_def)
  have i: "str_includes ''Service unavailable, refresh and retry later'' ''refresh''"
    by code_simp
  show ?thesis using sendGmailEmail_failure_classes [OF c t o m] i by simp
qed

text \<open>
  Counterexample to C8 as stated: an error with code 503 whose message mentions
  \<open>refresh\<close> is neither a 401 nor an \<open>invalid_grant\<close> error, and yet the failure is reported
  as an expired authentication.
\<close>

theorem sendGmailEmail_refresh_counterexample:
  "\<not> spec_auth_signal example_error
   \<and> fst (sendGmailEmail example_env_refresh example_user example_request example_world)
     = Inl (Error gmail_auth_expired)"
  by code_simp

subsection \<open>C9\<close>

text \<open>
  Claim C9, amended: \<open>sendEmailWithTracking\<close> always returns a result and never raises;
  \<open>sentCount\<close> is the number of sends that succeeded; \<open>messageId\<close> is never empty: it is the
  identifier of the first success when that identifier is not empty, and otherwise a
  placeholder \<open>bulk_send_\<close> followed by a clock reading; and the message that \<open>POST /send\<close>
  stores, if it stores one, has no error: the \<open>catch\<close> branch of the handler is never taken.
\<close>

theorem sendEmailWithTracking_returns:
  "(\<exists>res. fst (sendEmailWithTracking e user d t w) = Inr res
      \<and> messageId res \<noteq> []
      \<and> sentCount res = length (successes (transport_outcomes e user d t (allRecipients d) w))
      \<and> (case successes (transport_outcomes e user d t (allRecipients d) w) of
            (c # cs) # rest \<Rightarrow> messageId res = c # cs
          | _ \<Rightarrow> \<exists>now. messageId res = ''bulk_send_'' @ show_int now))
   \<and> (emails (snd (post_send e' user' req w')) = emails w'
       \<or> (\<exists>doc. emails (snd (post_send e' user' req w')) = emails w' @ [doc]
                 \<and> e_error doc = None))"
  using sendEmailWithTracking_result post_send_error by blast

text \<open>
  Counterexample to C9 as stated: if Gmail answers with an empty identifier, one send has
  succeeded and the result carries the placeholder, not the identifier of that send.
\<close>

theorem empty_provider_id_counterexample:
  "transport_outcomes example_env_empty_id example_user example_request ''65f0c0ffee00000000000000''
       [''ann@example.com''] example_world = [Inr []]
   \<and> fst (sendEmailWithTracking example_env_empty_id example_user example_request
            ''65f0c0ffee00000000000000'' example_world)
     = Inr \<lparr>messageId = ''bulk_send_1700000000001'', sentCount = 1\<rparr>"
  by code_simp

subsection \<open>C10\<close>




end
